theory Spec2Isabelle
  imports Main
begin

section \<open>Platform primitives: strings\<close>

text \<open>
  A JavaScript string is modelled as a byte string (its UTF-8 encoding). The helpers
  below are the \<^verbatim>\<open>String.prototype\<close> methods the library code calls.
\<close>

definition startsWith :: "string \<Rightarrow> string \<Rightarrow> bool" where
  "startsWith s p = (take (length p) s = p)"

definition endsWith :: "string \<Rightarrow> string \<Rightarrow> bool" where
  "endsWith s p = (length p \<le> length s \<and> drop (length s - length p) s = p)"

text \<open>\<^verbatim>\<open>s.includes(sub)\<close>: \<open>sub\<close> occurs in \<open>s\<close> as a contiguous run.\<close>

fun str_includes :: "string \<Rightarrow> string \<Rightarrow> bool" where
  "str_includes [] sub = (sub = [])"
| "str_includes (c # cs) sub = (startsWith (c # cs) sub \<or> str_includes cs sub)"

definition lower_char :: "char \<Rightarrow> char" where
  "lower_char c =
     (let n = (of_char c :: nat) in if 65 \<le> n \<and> n \<le> 90 then char_of (n + 32) else c)"

text \<open>
  \<^verbatim>\<open>s.toLowerCase()\<close>. ASCII capitals map to their small letters. The Kelvin sign
  (U+212A, bytes E2 84 AA) is the one code point beyond ASCII whose lower case is an
  ASCII letter; every other code point beyond ASCII keeps bytes beyond ASCII, so it is
  left as it is (the lower-cased string is only ever compared with ASCII keys).
\<close>

fun toLowerCase :: "string \<Rightarrow> string" where
  "toLowerCase [] = []"
| "toLowerCase (a # b # c # cs) =
     (if a = CHR 0xE2 \<and> b = CHR 0x84 \<and> c = CHR 0xAA then CHR ''k'' # toLowerCase cs
      else lower_char a # toLowerCase (b # c # cs))"
| "toLowerCase (a # cs) = lower_char a # toLowerCase cs"

text \<open>\<^verbatim>\<open>s.split(c)\<close> for a one-character separator: never the empty list.\<close>

fun split_char :: "char \<Rightarrow> string \<Rightarrow> string list" where
  "split_char c [] = [[]]"
| "split_char c (x # xs) =
     (if x = c then [] # split_char c xs
      else (case split_char c xs of [] \<Rightarrow> [[x]] | y # ys \<Rightarrow> (x # y) # ys))"

definition is_space :: "char \<Rightarrow> bool" where
  "is_space c = (c = CHR '' '' \<or> c = CHR 0x09 \<or> c = CHR 0x0A \<or> c = CHR 0x0B
                 \<or> c = CHR 0x0C \<or> c = CHR 0x0D)"

text \<open>\<^verbatim>\<open>s.trim()\<close> (ASCII white space; the Unicode spaces beyond ASCII are not modelled).\<close>

definition trim :: "string \<Rightarrow> string" where
  "trim s = rev (dropWhile is_space (rev (dropWhile is_space s)))"

section \<open>Type Resolver\<close>

text \<open>
  \<^verbatim>\<open>ITEM_TYPE_MAP\<close> is an object literal: besides its eighteen own properties, a
  property read on it finds the members it inherits from \<^verbatim>\<open>Object.prototype\<close>.
  A value read from it is therefore a string (an own property) or an inherited member
  (a function, or for \<^verbatim>\<open>__proto__\<close> the prototype object), which is truthy.
\<close>

datatype js_value = JString string | JInherited string

definition ITEM_TYPE_MAP :: "(string \<times> string) list" where
  "ITEM_TYPE_MAP =
     [(''article'', ''journalArticle''),
      (''journal'', ''journalArticle''),
      (''book'', ''book''),
      (''chapter'', ''bookSection''),
      (''conference'', ''conferencePaper''),
      (''thesis'', ''thesis''),
      (''report'', ''report''),
      (''webpage'', ''webpage''),
      (''blog'', ''blogPost''),
      (''news'', ''newspaperArticle''),
      (''magazine'', ''magazineArticle''),
      (''document'', ''document''),
      (''legal'', ''statute''),
      (''case'', ''case''),
      (''patent'', ''patent''),
      (''video'', ''videoRecording''),
      (''podcast'', ''podcast''),
      (''presentation'', ''presentation'')]"

definition Object_prototype :: "string list" where
  "Object_prototype =
     [''constructor'', ''__defineGetter__'', ''__defineSetter__'', ''hasOwnProperty'',
      ''__lookupGetter__'', ''__lookupSetter__'', ''isPrototypeOf'',
      ''propertyIsEnumerable'', ''toString'', ''valueOf'', ''__proto__'',
      ''toLocaleString'']"

text \<open>\<^verbatim>\<open>ITEM_TYPE_MAP[k]\<close>; \<open>None\<close> is \<^verbatim>\<open>undefined\<close>.\<close>

definition ITEM_TYPE_MAP_get :: "string \<Rightarrow> js_value option" where
  "ITEM_TYPE_MAP_get k =
     (case map_of ITEM_TYPE_MAP k of
        Some v \<Rightarrow> Some (JString v)
      | None \<Rightarrow> if k \<in> set Object_prototype then Some (JInherited k) else None)"

fun truthy :: "js_value \<Rightarrow> bool" where
  "truthy (JString s) = (s \<noteq> [])"
| "truthy (JInherited m) = True"

text \<open>\<^verbatim>\<open>getItemTypes\<close>: the own keys, in insertion order.\<close>

definition getItemTypes :: "string list" where
  "getItemTypes = map fst ITEM_TYPE_MAP"

text \<open>\<^verbatim>\<open>return ITEM_TYPE_MAP[simple.toLowerCase()] || simple;\<close>\<close>

definition resolveItemType :: "string \<Rightarrow> js_value" where
  "resolveItemType simple =
     (case ITEM_TYPE_MAP_get (toLowerCase simple) of
        Some v \<Rightarrow> if truthy v then v else JString simple
      | None \<Rightarrow> JString simple)"

section \<open>Platform primitives: errors, percent-decoding, URL parsing\<close>

text \<open>
  A thrown JavaScript error: what raised it, and its \<^verbatim>\<open>message\<close>. The library code
  only ever reads the message.
\<close>

datatype error_cause =
    URIError
  | TypeError
  | NetworkFailure
  | Timeout
  | ErrorResponse nat

datatype js_error = JsError (cause: error_cause) (message: string)

definition hex_val :: "char \<Rightarrow> nat option" where
  "hex_val c =
     (let n = (of_char c :: nat) in
      if 48 \<le> n \<and> n \<le> 57 then Some (n - 48)
      else if 65 \<le> n \<and> n \<le> 70 then Some (n - 55)
      else if 97 \<le> n \<and> n \<le> 102 then Some (n - 87)
      else None)"

text \<open>
  \<^verbatim>\<open>decodeURIComponent\<close> (ECMAScript \<^verbatim>\<open>Decode\<close> with an empty reserved set), in two
  passes. The first reads the escapes: a \<^verbatim>\<open>%\<close> not followed by two hexadecimal digits
  raises \<^verbatim>\<open>URIError\<close>. The second checks that the escaped bytes beyond ASCII form
  well-formed UTF-8 sequences, each byte of a sequence written as an escape; anything
  else raises \<^verbatim>\<open>URIError\<close>. \<open>None\<close> is the raised error.
\<close>

datatype uri_token = Lit char | Esc nat

fun uri_tokens :: "string \<Rightarrow> uri_token list option" where
  "uri_tokens [] = Some []"
| "uri_tokens (c # a # b # rest) =
     (if c = CHR ''%'' then
        (case (hex_val a, hex_val b) of
           (Some h, Some l) \<Rightarrow> map_option ((#) (Esc (16 * h + l))) (uri_tokens rest)
         | _ \<Rightarrow> None)
      else map_option ((#) (Lit c)) (uri_tokens (a # b # rest)))"
| "uri_tokens (c # cs) =
     (if c = CHR ''%'' then None else map_option ((#) (Lit c)) (uri_tokens cs))"

definition is_cont :: "nat \<Rightarrow> bool" where
  "is_cont b = (128 \<le> b \<and> b \<le> 191)"

definition second_of3 :: "nat \<Rightarrow> nat \<Rightarrow> bool" where
  "second_of3 b b1 =
     (if b = 224 then 160 \<le> b1 \<and> b1 \<le> 191
      else if b = 237 then 128 \<le> b1 \<and> b1 \<le> 159
      else is_cont b1)"

definition second_of4 :: "nat \<Rightarrow> nat \<Rightarrow> bool" where
  "second_of4 b b1 =
     (if b = 240 then 144 \<le> b1 \<and> b1 \<le> 191
      else if b = 244 then 128 \<le> b1 \<and> b1 \<le> 143
      else is_cont b1)"

fun uri_bytes :: "uri_token list \<Rightarrow> string option" where
  "uri_bytes [] = Some []"
| "uri_bytes (Lit c # ts) = map_option ((#) c) (uri_bytes ts)"
| "uri_bytes (Esc b # ts) =
     (if b < 128 then map_option ((#) (char_of b)) (uri_bytes ts)
      else if 194 \<le> b \<and> b \<le> 223 then
        (case ts of
           Esc b1 # r \<Rightarrow>
             if is_cont b1
             then map_option (\<lambda>s. char_of b # char_of b1 # s) (uri_bytes r)
             else None
         | _ \<Rightarrow> None)
      else if 224 \<le> b \<and> b \<le> 239 then
        (case ts of
           Esc b1 # Esc b2 # r \<Rightarrow>
             if second_of3 b b1 \<and> is_cont b2
             then map_option (\<lambda>s. char_of b # char_of b1 # char_of b2 # s) (uri_bytes r)
             else None
         | _ \<Rightarrow> None)
      else if 240 \<le> b \<and> b \<le> 244 then
        (case ts of
           Esc b1 # Esc b2 # Esc b3 # r \<Rightarrow>
             if second_of4 b b1 \<and> is_cont b2 \<and> is_cont b3
             then map_option
                    (\<lambda>s. char_of b # char_of b1 # char_of b2 # char_of b3 # s) (uri_bytes r)
             else None
         | _ \<Rightarrow> None)
      else None)"

definition decodeURIComponent :: "string \<Rightarrow> string option" where
  "decodeURIComponent s = (case uri_tokens s of None \<Rightarrow> None | Some ts \<Rightarrow> uri_bytes ts)"

text \<open>
  What the code reads of a parsed \<^verbatim>\<open>URL\<close>: its \<^verbatim>\<open>pathname\<close> and its
  \<^verbatim>\<open>searchParams\<close> (names and values already form-decoded, in order of appearance).
\<close>

record parsed_url =
  pathname :: string
  searchParams :: "(string \<times> string) list"

text \<open>\<^verbatim>\<open>searchParams.get(name)\<close>: the first value of that name, \<open>None\<close> for \<^verbatim>\<open>null\<close>.\<close>

definition searchParams_get :: "parsed_url \<Rightarrow> string \<Rightarrow> string option" where
  "searchParams_get p name = map_of (searchParams p) name"

text \<open>
  The platform's \<^verbatim>\<open>new URL(raw)\<close> is a parameter of everything below that parses a
  URL. \<open>URL_parse\<close> is a model of it on plain \<^verbatim>\<open>http://\<close> and \<^verbatim>\<open>https://\<close> URLs (a
  host, a path without dot segments, a query, a fragment), used to run the code on
  concrete inputs. The query is read as \<^verbatim>\<open>URLSearchParams\<close> reads it: split at
  \<^verbatim>\<open>&\<close>, each pair split at its first \<^verbatim>\<open>=\<close>, \<^verbatim>\<open>+\<close> read as a space, and escapes
  decoded where they are well-formed and left alone where they are not.
\<close>

fun percent_decode_lenient :: "string \<Rightarrow> string" where
  "percent_decode_lenient (c # a # b # rest) =
     (if c = CHR ''%'' then
        (case (hex_val a, hex_val b) of
           (Some h, Some l) \<Rightarrow> char_of (16 * h + l) # percent_decode_lenient rest
         | _ \<Rightarrow> c # percent_decode_lenient (a # b # rest))
      else c # percent_decode_lenient (a # b # rest))"
| "percent_decode_lenient cs = cs"

definition form_decode :: "string \<Rightarrow> string" where
  "form_decode s = percent_decode_lenient (map (\<lambda>c. if c = CHR ''+'' then CHR '' '' else c) s)"

definition split_first :: "char \<Rightarrow> string \<Rightarrow> string \<times> string" where
  "split_first c s = (takeWhile (\<lambda>x. x \<noteq> c) s, drop 1 (dropWhile (\<lambda>x. x \<noteq> c) s))"

definition parse_query :: "string \<Rightarrow> (string \<times> string) list" where
  "parse_query q =
     map (\<lambda>pair. (form_decode (fst (split_first (CHR ''='') pair)),
                   form_decode (snd (split_first (CHR ''='') pair))))
         (filter (\<lambda>pair. pair \<noteq> []) (split_char (CHR ''&'') q))"

definition URL_parse :: "string \<Rightarrow> parsed_url option" where
  "URL_parse raw =
     (let nofrag = fst (split_first (CHR ''#'') raw);
          base = fst (split_first (CHR ''?'') nofrag);
          query = snd (split_first (CHR ''?'') nofrag);
          rest = (if startsWith base ''https://'' then Some (drop 8 base)
                  else if startsWith base ''http://'' then Some (drop 7 base)
                  else None)
      in case rest of
           None \<Rightarrow> None
         | Some r \<Rightarrow>
             (let host = takeWhile (\<lambda>x. x \<noteq> CHR ''/'') r;
                  path = dropWhile (\<lambda>x. x \<noteq> CHR ''/'') r
              in if host = [] then None
                 else Some \<lparr>pathname = (if path = [] then ''/'' else path),
                            searchParams = parse_query query\<rparr>))"

section \<open>URL Unwrapper\<close>

text \<open>
  \<^verbatim>\<open>WRAPPER_PATTERNS.test(path)\<close>. The expression is an alternation of literals and of
  two patterns with \<^verbatim>\<open>.*\<close> between literals, matched anywhere in the path, ASCII
  letters compared without case. \<^verbatim>\<open>.\<close> matches any character but a line terminator.
\<close>

definition is_line_terminator :: "char \<Rightarrow> bool" where
  "is_line_terminator c = (c = CHR 0x0A \<or> c = CHR 0x0D)"

fun match_dotstar :: "string \<Rightarrow> string \<Rightarrow> string \<Rightarrow> bool" where
  "match_dotstar a b [] = False"
| "match_dotstar a b (c # cs) =
     ((startsWith (c # cs) a \<and>
       str_includes (takeWhile (\<lambda>x. \<not> is_line_terminator x) (drop (length a) (c # cs))) b)
      \<or> match_dotstar a b cs)"

definition WRAPPER_PATTERNS_test :: "string \<Rightarrow> bool" where
  "WRAPPER_PATTERNS_test path =
     (let l = map lower_char path in
      str_includes l ''pdfrenderer'' \<or> str_includes l ''pdf.svc'' \<or>
      str_includes l ''htmltopdf'' \<or> str_includes l ''html2pdf'' \<or>
      match_dotstar ''render'' ''pdf'' l \<or> match_dotstar ''pdf'' ''render'' l \<or>
      str_includes l ''webshot'' \<or> str_includes l ''screenshot'' \<or>
      str_includes l ''snapshot'' \<or> str_includes l ''proxy.php'' \<or>
      str_includes l ''fetch.php'')"

definition URL_PARAM_NAMES :: "string list" where
  "URL_PARAM_NAMES = [''url'', ''source'', ''target'', ''uri'', ''link'', ''src'']"

text \<open>
  \<^verbatim>\<open>parsed.pathname.replace(/^\/|\/$/g, "").split("/")\<close>: one leading and one trailing
  slash are removed, and what is left is split at every slash.
\<close>

definition path_segments :: "string \<Rightarrow> string list" where
  "path_segments path =
     (let s1 = (if startsWith path ''/'' then drop 1 path else path);
          s2 = (if endsWith s1 ''/'' then butlast s1 else s1)
      in split_char (CHR ''/'') s2)"

definition is_http :: "string \<Rightarrow> bool" where
  "is_http decoded = (startsWith decoded ''http://'' \<or> startsWith decoded ''https://'')"

text \<open>
  The loop over \<^verbatim>\<open>URL_PARAM_NAMES\<close>. \<open>Inr (Some d)\<close> is \<^verbatim>\<open>return decoded\<close>,
  \<open>Inr None\<close> is the loop running to its end, \<open>Inl e\<close> is the error that
  \<^verbatim>\<open>decodeURIComponent\<close> raised: nothing in the function catches it.
\<close>

fun unwrap_loop :: "parsed_url \<Rightarrow> bool \<Rightarrow> string list \<Rightarrow> js_error + string option" where
  "unwrap_loop parsed isWrapper [] = Inr None"
| "unwrap_loop parsed isWrapper (param # params) =
     (case searchParams_get parsed param of
        None \<Rightarrow> unwrap_loop parsed isWrapper params
      | Some candidate \<Rightarrow>
          if candidate = [] then unwrap_loop parsed isWrapper params
          else
            (case decodeURIComponent candidate of
               None \<Rightarrow> Inl (JsError URIError ''URI malformed'')
             | Some decoded \<Rightarrow>
                 if is_http decoded then
                   (if isWrapper then Inr (Some decoded)
                    else if 2 \<le> length (path_segments (pathname parsed))
                    then Inr (Some decoded)
                    else unwrap_loop parsed isWrapper params)
                 else unwrap_loop parsed isWrapper params))"

definition unwrapUrl :: "(string \<Rightarrow> parsed_url option) \<Rightarrow> string \<Rightarrow> js_error + string" where
  "unwrapUrl url_parse raw =
     (case url_parse raw of
        None \<Rightarrow> Inr raw
      | Some parsed \<Rightarrow>
          (case unwrap_loop parsed (WRAPPER_PATTERNS_test (pathname parsed)) URL_PARAM_NAMES of
             Inl e \<Rightarrow> Inl e
           | Inr (Some decoded) \<Rightarrow> Inr decoded
           | Inr None \<Rightarrow> Inr raw))"

section \<open>More string helpers\<close>

text \<open>\<^verbatim>\<open>`${n}`\<close> for a non-negative integer.\<close>

function show_nat :: "nat \<Rightarrow> string" where
  "show_nat n =
     (if n < 10 then [char_of (48 + n)]
      else show_nat (n div 10) @ [char_of (48 + n mod 10)])"
  by pat_completeness auto
termination
  by (relation "measure id") auto

declare show_nat.simps [simp del]

text \<open>
  \<^verbatim>\<open>s.split(sep).pop()\<close>: what follows the last occurrence of \<open>sep\<close>, the whole
  string when there is none (the separators used do not overlap themselves).
\<close>

fun after_last :: "string \<Rightarrow> string \<Rightarrow> string option" where
  "after_last sep [] = None"
| "after_last sep (c # cs) =
     (case after_last sep cs of
        Some r \<Rightarrow> Some r
      | None \<Rightarrow> if startsWith (c # cs) sep then Some (drop (length sep) (c # cs)) else None)"

definition split_pop :: "string \<Rightarrow> string \<Rightarrow> string" where
  "split_pop sep s = (case after_last sep s of Some r \<Rightarrow> r | None \<Rightarrow> s)"

text \<open>\<^verbatim>\<open>s.indexOf(sub)\<close>, \<open>None\<close> for \<open>-1\<close>.\<close>

fun index_of :: "string \<Rightarrow> string \<Rightarrow> nat option" where
  "index_of sub [] = (if sub = [] then Some 0 else None)"
| "index_of sub (c # cs) =
     (if startsWith (c # cs) sub then Some 0 else map_option Suc (index_of sub cs))"

text \<open>\<^verbatim>\<open>s.split(/\s+/)\<close> (ASCII white space).\<close>

function split_ws :: "string \<Rightarrow> string list" where
  "split_ws s =
     (let piece = takeWhile (\<lambda>c. \<not> is_space c) s;
          rest = dropWhile (\<lambda>c. \<not> is_space c) s
      in if rest = [] then [piece] else piece # split_ws (dropWhile is_space rest))"
  by pat_completeness auto
termination
proof (relation "measure length")
  show "wf (measure length)" by simp
next
  fix s :: string and piece rest
  assume r: "rest = dropWhile (\<lambda>c. \<not> is_space c) s" and ne: "rest \<noteq> []"
  from ne obtain x xs where rx: "rest = x # xs" by (cases rest) auto
  have "length (dropWhile is_space rest) \<le> length rest"
    by (rule length_dropWhile_le)
  moreover have "is_space x"
    using r rx hd_dropWhile [of "\<lambda>c. \<not> is_space c" s] by (metis list.sel(1) ne)
  then have "length (dropWhile is_space rest) < length rest"
    using rx length_dropWhile_le [of is_space xs] by simp
  moreover have "length rest \<le> length s"
    unfolding r by (rule length_dropWhile_le)
  ultimately show "(dropWhile is_space rest, s) \<in> measure length" by simp
qed

declare split_ws.simps [simp del]

fun join_with :: "string \<Rightarrow> string list \<Rightarrow> string" where
  "join_with sep [] = []"
| "join_with sep [x] = x"
| "join_with sep (x # y # ys) = x @ sep @ join_with sep (y # ys)"

text \<open>A string that is given and not empty (\<^verbatim>\<open>if (s)\<close> on an optional string).\<close>

fun given :: "string option \<Rightarrow> bool" where
  "given None = False"
| "given (Some s) = (s \<noteq> [])"

section \<open>The remote store and the network\<close>

text \<open>
  The store's JSON, as far as the code reads it. An absent (or \<^verbatim>\<open>null\<close>) property is
  \<open>None\<close>. An entry of \<^verbatim>\<open>data.tags\<close> is a bare string, or an object read by its
  \<^verbatim>\<open>tag\<close> property; the store's own entries are \<open>TagObject (Some (TagString name))\<close>.
  \<open>tag_or_self\<close> is the code's \<^verbatim>\<open>t.tag || t\<close>, and \<open>TagObject (Some v)\<close> also stands
  for the object \<^verbatim>\<open>{ tag: v }\<close> that the code builds.
\<close>

datatype raw_tag = TagString string | TagObject "raw_tag option"

fun tag_truthy :: "raw_tag \<Rightarrow> bool" where
  "tag_truthy (TagString s) = (s \<noteq> [])"
| "tag_truthy (TagObject v) = True"

fun tag_or_self :: "raw_tag \<Rightarrow> raw_tag" where
  "tag_or_self (TagString s) = TagString s"
| "tag_or_self (TagObject None) = TagObject None"
| "tag_or_self (TagObject (Some v)) = (if tag_truthy v then v else TagObject (Some v))"

record creator =
  c_name :: "string option"
  c_firstName :: "string option"
  c_lastName :: "string option"

record item_data =
  d_key :: "string option"
  d_itemType :: "string option"
  d_title :: "string option"
  d_creators :: "creator list option"
  d_date :: "string option"
  d_tags :: "raw_tag list option"
  d_url :: "string option"
  d_contentType :: "string option"
  d_filename :: "string option"
  d_abstractNote :: "string option"
  d_extra :: "string option"
  d_collections :: "string list option"
  d_dateModified :: "string option"

text \<open>
  An entry of \<^verbatim>\<open>response.raw\<close>: its key and version, its \<^verbatim>\<open>data\<close> object when it has
  one, and \<open>r_self\<close>, the entry's own properties read as if the entry were the data
  object (the code writes \<^verbatim>\<open>raw.data || raw\<close>).
\<close>

record raw_item =
  r_key :: "string option"
  r_version :: nat
  r_data :: "item_data option"
  r_self :: item_data

text \<open>
  A template, and any object posted to the store: property names and values in insertion
  order. \<^verbatim>\<open>name in template\<close> is \<open>has_field\<close>, \<^verbatim>\<open>template.name = v\<close> is \<open>assign\<close>.
\<close>

datatype new_creator =
    PersonAuthor string string
  | NameAuthor string

datatype field_value =
    FString string
  | FCreators "new_creator list"
  | FTags "string list"
  | FCollections "string list"
  | FOther

type_synonym template = "(string \<times> field_value) list"

definition has_field :: "string \<Rightarrow> template \<Rightarrow> bool" where
  "has_field name t = (map_of t name \<noteq> None)"

fun assign :: "string \<Rightarrow> field_value \<Rightarrow> template \<Rightarrow> template" where
  "assign name v [] = [(name, v)]"
| "assign name v (p # ps) = (if fst p = name then (name, v) # ps else p # assign name v ps)"

text \<open>What the code reads of the response to a fetch of a source URL.\<close>

record http_response =
  h_ok :: bool
  h_status :: nat
  h_statusText :: string
  h_content_type :: "string option"
  h_content_disposition :: "string option"
  h_body :: "js_error + string"

text \<open>
  The response to \<^verbatim>\<open>items().post([t])\<close>: \<open>w_entity0\<close> is \<^verbatim>\<open>getEntityByIndex(0)\<close>
  (it throws, or gives nothing, or gives the created entity, read here by its key);
  the other two fields are the renderings \<^verbatim>\<open>JSON.stringify(response.raw)\<close> and
  \<^verbatim>\<open>JSON.stringify(response.raw || response)\<close> that the error messages quote.
\<close>

record write_response =
  w_entity0 :: "js_error + string option"
  w_raw_json :: string
  w_raw_or_self_json :: string

text \<open>
  The response to the upload of a binary: \<open>u_ok\<close> is
  \<^verbatim>\<open>uploadResp?.response?.ok ?? uploadResp?.ok\<close> (\<open>None\<close> when neither is there), the other
  two are the status and body as the error message prints them.
\<close>

record upload_response =
  u_ok :: "bool option"
  u_status :: string
  u_body_json :: string

text \<open>The fulltext endpoint, as the current code fetches it.\<close>

record ft_data =
  ft_content :: "string option"
  ft_indexedPages :: "nat option"
  ft_totalPages :: "nat option"
  ft_indexedChars :: "nat option"
  ft_totalChars :: "nat option"

record ft_response =
  f_status :: nat
  f_ok :: bool
  f_json :: "js_error + ft_data"

text \<open>
  The body of a patch request. The current code sends the changed properties only, after
  \<^verbatim>\<open>version(v)\<close> has made the request conditional on the version. The legacy code calls
  \<^verbatim>\<open>patch(version, data)\<close> on a client whose \<^verbatim>\<open>patch\<close> takes the body first and the
  options second: the body it sends is the version number, and the data object with the
  changes written into it is read as options (\<open>VersionAsBody\<close>); no version condition
  is attached.
\<close>

record patch =
  pt_title :: "string option"
  pt_abstractNote :: "string option"
  pt_date :: "string option"
  pt_extra :: "string option"
  pt_tags :: "raw_tag list option"
  pt_collections :: "string list option"

datatype patch_body = Partial patch | VersionAsBody nat item_data

record req_params =
  q_sort :: "string option"
  q_direction :: "string option"
  q_limit :: "nat option"
  q_start :: "nat option"
  q_q :: "string option"
  q_qmode :: "string option"
  q_tag :: "string option"
  q_itemType :: "js_value option"

record list_response =
  l_raw :: "raw_item list option"
  l_total_results :: "string option"

text \<open>A collection entry: its key, and in \<^verbatim>\<open>data\<close> its name and parent.\<close>

record raw_collection =
  rc_key :: string
  rc_data :: "(string \<times> string option) option"

record raw_tag_count =
  rt_tag :: string
  rt_numItems :: "nat option"

text \<open>
  Every request the code makes is answered by the world: the platform's URL parser, the
  network, and the store as it answers for the credentials and library of the call
  (those three parameters of every operation are therefore not repeated). A request
  that fails is \<open>Inl\<close> the error thrown. No operation makes the same request twice, so
  one answer per request is all an operation can observe.
\<close>

record world =
  url_parse :: "string \<Rightarrow> parsed_url option"
  fetch :: "string \<Rightarrow> js_error + http_response"
  template_get :: "js_value \<Rightarrow> js_error + template"
  items_post :: "template \<Rightarrow> js_error + write_response"
  attachment_post :: "string \<Rightarrow> string \<Rightarrow> string \<Rightarrow> string \<Rightarrow> js_error + upload_response"
  item_get :: "string \<Rightarrow> js_error + raw_item"
  children_get :: "string \<Rightarrow> js_error + raw_item list option"
  fulltext_fetch :: "string \<Rightarrow> js_error + ft_response"
  item_patch :: "string \<Rightarrow> nat option \<Rightarrow> patch_body \<Rightarrow> js_error + unit"
  items_top_get :: "req_params \<Rightarrow> js_error + list_response"
  collection_items_top_get :: "string \<Rightarrow> req_params \<Rightarrow> js_error + list_response"
  collections_get :: "js_error + raw_collection list option"
  tags_get :: "nat \<Rightarrow> nat \<Rightarrow> js_error + raw_tag_count list option"

text \<open>The requests an operation made, in the order it made them.\<close>

datatype request =
    Fetch string
  | TemplateGet js_value
  | ItemsPost template
  | AttachmentPost string string string string
  | ItemGet string
  | ChildrenGet string
  | FulltextFetch string
  | ItemPatch string "nat option" patch_body
  | ItemsTopGet req_params
  | CollectionItemsTopGet string req_params
  | CollectionsGet
  | TagsGet nat nat

section \<open>Attachment Uploader\<close>

record attach_result =
  a_success :: bool
  a_error :: "string option"
  a_attachment_key :: "string option"
  a_filename :: "string option"
  a_title :: "string option"
  a_size_bytes :: "nat option"

definition attach_failure :: "string \<Rightarrow> string option \<Rightarrow> attach_result" where
  "attach_failure err key =
     \<lparr>a_success = False, a_error = Some err, a_attachment_key = key,
      a_filename = None, a_title = None, a_size_bytes = None\<rparr>"

text \<open>The file name of a PDF: the caller's, else the header's, else the URL's.\<close>

definition pdf_filename :: "string option \<Rightarrow> http_response \<Rightarrow> string \<Rightarrow> string" where
  "pdf_filename filename response pdfUrl =
     (if given filename then the filename
      else
        (let cd = (case h_content_disposition response of Some h \<Rightarrow> h | None \<Rightarrow> [])
         in if str_includes cd ''filename=''
            then trim (filter (\<lambda>c. c \<noteq> CHR 0x27 \<and> c \<noteq> CHR 0x22) (split_pop ''filename='' cd))
            else
              (let name = hd (split_char (CHR ''?'') (split_pop ''/'' pdfUrl))
               in if endsWith name ''.pdf'' then name else ''attachment.pdf'')))"

definition attachment_template :: "string \<Rightarrow> string \<Rightarrow> string \<Rightarrow> string \<Rightarrow> template" where
  "attachment_template parentItemKey title contentType filename =
     [(''itemType'', FString ''attachment''),
      (''parentItem'', FString parentItemKey),
      (''linkMode'', FString ''imported_file''),
      (''title'', FString title),
      (''contentType'', FString contentType),
      (''filename'', FString filename)]"

text \<open>
  The second half of both attachment operations, from \<^verbatim>\<open>zot.items().post\<close> on: register
  the attachment item, then upload the binary against its key. \<open>catch\<close> is the
  operation's \<^verbatim>\<open>catch\<close> clause, \<open>done\<close> builds its success result.
\<close>

definition register_and_upload ::
  "world \<Rightarrow> template \<Rightarrow> string \<Rightarrow> string \<Rightarrow> string \<Rightarrow> (js_error \<Rightarrow> attach_result) \<Rightarrow>
   (string \<Rightarrow> attach_result) \<Rightarrow> attach_result \<times> request list" where
  "register_and_upload w tmpl filename buffer contentType catch done =
     (case items_post w tmpl of
        Inl e \<Rightarrow> (catch e, [ItemsPost tmpl])
      | Inr createResp \<Rightarrow>
          (case w_entity0 createResp of
             Inl e \<Rightarrow> (catch e, [ItemsPost tmpl])
           | Inr None \<Rightarrow>
               (attach_failure
                  (''Failed to create attachment item. API response: ''
                     @ w_raw_or_self_json createResp) None,
                [ItemsPost tmpl])
           | Inr (Some key) \<Rightarrow>
               (case attachment_post w key filename buffer contentType of
                  Inl e \<Rightarrow>
                    (catch e, [ItemsPost tmpl, AttachmentPost key filename buffer contentType])
                | Inr uploadResp \<Rightarrow>
                    ((if u_ok uploadResp = Some False
                      then attach_failure
                             (''Attachment item created ('' @ key
                                @ '') but file upload failed. Status: '' @ u_status uploadResp
                                @ ''. Response: '' @ u_body_json uploadResp)
                             (Some key)
                      else done key),
                     [ItemsPost tmpl, AttachmentPost key filename buffer contentType]))))"

text \<open>
  \<^verbatim>\<open>attachPdfFromUrl\<close>. The first statement, \<^verbatim>\<open>pdfUrl = unwrapUrl(pdfUrl)\<close>, stands before
  the \<^verbatim>\<open>try\<close>: an error it raises leaves the operation (\<open>Inl\<close>). Everything after is
  inside the \<^verbatim>\<open>try\<close>, whose \<^verbatim>\<open>catch\<close> turns an error into a failure result.
\<close>

definition attachPdfFromUrl ::
  "world \<Rightarrow> string \<Rightarrow> string \<Rightarrow> string option \<Rightarrow> (js_error + attach_result) \<times> request list" where
  "attachPdfFromUrl w parentItemKey pdfUrl0 filename0 =
     (case unwrapUrl (url_parse w) pdfUrl0 of
        Inl e \<Rightarrow> (Inl e, [])
      | Inr pdfUrl \<Rightarrow>
          (let catch = (\<lambda>e. attach_failure (''Failed to attach PDF: '' @ message e) None) in
           case fetch w pdfUrl of
             Inl e \<Rightarrow> (Inr (catch e), [Fetch pdfUrl])
           | Inr response \<Rightarrow>
               if \<not> h_ok response then
                 (Inr (attach_failure
                         (''Failed to download PDF: HTTP '' @ show_nat (h_status response)
                            @ '' '' @ h_statusText response) None),
                  [Fetch pdfUrl])
               else
                 (case h_body response of
                    Inl e \<Rightarrow> (Inr (catch e), [Fetch pdfUrl])
                  | Inr buffer \<Rightarrow>
                      if length buffer = 0 then
                        (Inr (attach_failure ''Downloaded PDF is empty (0 bytes)'' None),
                         [Fetch pdfUrl])
                      else
                        (let filename = pdf_filename filename0 response pdfUrl;
                             tmpl = attachment_template parentItemKey filename
                                      ''application/pdf'' filename;
                             r = register_and_upload w tmpl filename buffer ''application/pdf''
                                   catch
                                   (\<lambda>key. \<lparr>a_success = True, a_error = None,
                                            a_attachment_key = Some key,
                                            a_filename = Some filename, a_title = None,
                                            a_size_bytes = Some (length buffer)\<rparr>)
                         in (Inr (fst r), Fetch pdfUrl # snd r)))))"

text \<open>
  The title of a fetched page: the text of the first \<^verbatim>\<open><title ...>...</title>\<close> element
  (\<^verbatim>\<open>/<title[^>]*>([\s\S]*?)<\/title>/i\<close>), \<open>None\<close> when the expression does not match.
\<close>

definition html_title :: "string \<Rightarrow> string option" where
  "html_title html =
     (let l = map lower_char html in
      case index_of ''<title'' l of
        None \<Rightarrow> None
      | Some i \<Rightarrow>
          (case index_of ''>'' (drop (i + 6) l) of
             None \<Rightarrow> None
           | Some g \<Rightarrow>
               (case index_of ''</title>'' (drop (i + 6 + g + 1) l) of
                  None \<Rightarrow> None
                | Some e \<Rightarrow> Some (take e (drop (i + 6 + g + 1) html)))))"

definition is_word_char :: "char \<Rightarrow> bool" where
  "is_word_char c =
     (let n = (of_char c :: nat) in
      (48 \<le> n \<and> n \<le> 57) \<or> (65 \<le> n \<and> n \<le> 90) \<or> (97 \<le> n \<and> n \<le> 122) \<or> n = 95)"

text \<open>\<^verbatim>\<open>title.replace(/[^\w\s\-.]/g, "").slice(0, 80).trim() || "snapshot"\<close>\<close>

definition safeName :: "string \<Rightarrow> string" where
  "safeName title =
     (let kept = filter (\<lambda>c. is_word_char c \<or> is_space c \<or> c = CHR ''-'' \<or> c = CHR ''.'') title;
          cut = trim (take 80 kept)
      in if cut = [] then ''snapshot'' else cut)"

definition attachSnapshot ::
  "world \<Rightarrow> string \<Rightarrow> string \<Rightarrow> string option \<Rightarrow> (js_error + attach_result) \<times> request list" where
  "attachSnapshot w parentItemKey url0 title0 =
     (case unwrapUrl (url_parse w) url0 of
        Inl e \<Rightarrow> (Inl e, [])
      | Inr url \<Rightarrow>
          (let catch = (\<lambda>e. attach_failure (''Failed to attach snapshot: '' @ message e) None) in
           case fetch w url of
             Inl e \<Rightarrow> (Inr (catch e), [Fetch url])
           | Inr response \<Rightarrow>
               if \<not> h_ok response then
                 (Inr (attach_failure
                         (''Failed to fetch page: HTTP '' @ show_nat (h_status response)
                            @ '' '' @ h_statusText response) None),
                  [Fetch url])
               else
                 (case h_body response of
                    Inl e \<Rightarrow> (Inr (catch e), [Fetch url])
                  | Inr html \<Rightarrow>
                      if html = [] then
                        (Inr (attach_failure ''Fetched page is empty (0 bytes)'' None),
                         [Fetch url])
                      else
                        (let title = (if given title0 then the title0
                                      else (case html_title html of
                                              Some t \<Rightarrow> trim t
                                            | None \<Rightarrow> url));
                             filename = safeName title @ ''.html'';
                             tmpl = attachment_template parentItemKey title ''text/html'' filename;
                             r = register_and_upload w tmpl filename html ''text/html''
                                   catch
                                   (\<lambda>key. \<lparr>a_success = True, a_error = None,
                                            a_attachment_key = Some key,
                                            a_filename = Some filename, a_title = Some title,
                                            a_size_bytes = Some (length html)\<rparr>)
                         in (Inr (fst r), Fetch url # snd r)))))"

section \<open>Item Writer\<close>

record CreateItemParams =
  p_title :: string
  p_itemType :: "string option"
  p_authors :: "string list option"
  p_date :: "string option"
  p_url :: "string option"
  p_abstract :: "string option"
  p_publication :: "string option"
  p_volume :: "string option"
  p_issue :: "string option"
  p_pages :: "string option"
  p_doi :: "string option"
  p_tags :: "string list option"
  p_collectionId :: "string option"
  p_pdfUrl :: "string option"
  p_snapshotUrl :: "string option"
  p_extra :: "string option"

record create_result =
  cr_success :: bool
  cr_item_key :: "string option"
  cr_message :: "string option"
  cr_error :: "string option"
  cr_pdf_attachment :: "attach_result option"
  cr_snapshot_attachment :: "attach_result option"

definition create_failure :: "string \<Rightarrow> create_result" where
  "create_failure err =
     \<lparr>cr_success = False, cr_item_key = None, cr_message = None, cr_error = Some err,
      cr_pdf_attachment = None, cr_snapshot_attachment = None\<rparr>"

text \<open>\<^verbatim>\<open>`${v}`\<close> for a value read from the type table.\<close>

fun js_to_string :: "js_value \<Rightarrow> string" where
  "js_to_string (JString s) = s"
| "js_to_string (JInherited m) =
     (if m = ''__proto__'' then ''[object Object]''
      else ''function '' @ (if m = ''constructor'' then ''Object'' else m)
             @ ''() { [native code] }'')"

text \<open>\<^verbatim>\<open>if (v && name in template) template.name = v\<close>\<close>

definition set_if_declared :: "string option \<Rightarrow> string \<Rightarrow> template \<Rightarrow> template" where
  "set_if_declared v name t =
     (if given v \<and> has_field name t then assign name (FString (the v)) t else t)"

definition author_of :: "string \<Rightarrow> new_creator" where
  "author_of name =
     (let parts = split_ws (trim name) in
      if 2 \<le> length parts
      then PersonAuthor (join_with '' '' (butlast parts)) (last parts)
      else NameAuthor name)"

text \<open>The block \<^verbatim>\<open>// Fill template\<close> up to \<^verbatim>\<open>// Collection\<close>, statement by statement.\<close>

definition fill_template :: "CreateItemParams \<Rightarrow> template \<Rightarrow> template" where
  "fill_template params template =
     (let authors = (case p_authors params of Some a \<Rightarrow> a | None \<Rightarrow> []);
          tags = (case p_tags params of Some t \<Rightarrow> t | None \<Rightarrow> []);
          t1 = assign ''title'' (FString (p_title params)) template;
          t2 = (if given (p_date params) then assign ''date'' (FString (the (p_date params))) t1
                else t1);
          t3 = set_if_declared (p_url params) ''url'' t2;
          t4 = set_if_declared (p_abstract params) ''abstractNote'' t3;
          t5 = set_if_declared (p_extra params) ''extra'' t4;
          t6 = (if given (p_publication params) then
                  (if has_field ''publicationTitle'' t5
                   then assign ''publicationTitle'' (FString (the (p_publication params))) t5
                   else if has_field ''blogTitle'' t5
                   then assign ''blogTitle'' (FString (the (p_publication params))) t5
                   else if has_field ''websiteTitle'' t5
                   then assign ''websiteTitle'' (FString (the (p_publication params))) t5
                   else t5)
                else t5);
          t7 = set_if_declared (p_volume params) ''volume'' t6;
          t8 = set_if_declared (p_issue params) ''issue'' t7;
          t9 = set_if_declared (p_pages params) ''pages'' t8;
          t10 = set_if_declared (p_doi params) ''DOI'' t9;
          t11 = (if 0 < length authors \<and> has_field ''creators'' t10
                 then assign ''creators'' (FCreators (map author_of authors)) t10 else t10);
          t12 = (if 0 < length tags then assign ''tags'' (FTags tags) t11 else t11)
      in if given (p_collectionId params)
         then assign ''collections'' (FCollections [the (p_collectionId params)]) t12
         else t12)"

text \<open>
  \<^verbatim>\<open>createItem\<close>. The template is fetched in a \<^verbatim>\<open>try\<close> of its own. The second
  \<^verbatim>\<open>try\<close> holds the post of the item and the call of the attachment operation; its
  \<^verbatim>\<open>catch\<close> answers \<^verbatim>\<open>{ success: false, error: err.message }\<close> for whatever is thrown
  inside, an error leaving the attachment operation included.
\<close>

definition createItem :: "world \<Rightarrow> CreateItemParams \<Rightarrow> create_result \<times> request list" where
  "createItem w params =
     (let itemType = (case p_itemType params of Some t \<Rightarrow> t | None \<Rightarrow> ''webpage'');
          zoteroType = resolveItemType itemType
      in case template_get w zoteroType of
           Inl e \<Rightarrow>
             (create_failure
                (''Invalid item type '' @ [CHR 0x27] @ js_to_string zoteroType @ [CHR 0x27]
                   @ '': '' @ message e),
              [TemplateGet zoteroType])
         | Inr template0 \<Rightarrow>
             (let template = fill_template params template0;
                  log = [TemplateGet zoteroType, ItemsPost template]
              in case items_post w template of
                   Inl e \<Rightarrow> (create_failure (message e), log)
                 | Inr response \<Rightarrow>
                     (case w_entity0 response of
                        Inl e \<Rightarrow> (create_failure (message e), log)
                      | Inr None \<Rightarrow>
                          (create_failure (''Failed to create item: '' @ w_raw_json response), log)
                      | Inr (Some itemKey) \<Rightarrow>
                          (let result =
                                 \<lparr>cr_success = True, cr_item_key = Some itemKey,
                                  cr_message = Some (''Created '' @ js_to_string zoteroType
                                                       @ '': '' @ p_title params),
                                  cr_error = None, cr_pdf_attachment = None,
                                  cr_snapshot_attachment = None\<rparr>
                           in if given (p_pdfUrl params) then
                                (case attachPdfFromUrl w itemKey (the (p_pdfUrl params)) None of
                                   (Inl e, reqs) \<Rightarrow> (create_failure (message e), log @ reqs)
                                 | (Inr a, reqs) \<Rightarrow>
                                     (result\<lparr>cr_pdf_attachment := Some a\<rparr>, log @ reqs))
                              else if given (p_snapshotUrl params) then
                                (case attachSnapshot w itemKey (the (p_snapshotUrl params)) None of
                                   (Inl e, reqs) \<Rightarrow> (create_failure (message e), log @ reqs)
                                 | (Inr a, reqs) \<Rightarrow>
                                     (result\<lparr>cr_snapshot_attachment := Some a\<rparr>, log @ reqs))
                              else (result, log)))))"

section \<open>Fulltext Resolver\<close>

text \<open>
  The three shapes of the resolver's answer: \<^verbatim>\<open>{ error }\<close>; an answer with content
  (item key, attachment key and file name where there are any, the content, the index
  counts, the source); an answer with \<^verbatim>\<open>content: null\<close> and a message (item key,
  message, and where given the content type, the file name and the attachments checked).
\<close>

datatype fulltext_result =
    FtError string
  | FtFound string "string option" "string option" string ft_data string
  | FtAbsent string string "string option" "string option"
      "(string option \<times> string option \<times> string option) list option"

text \<open>\<^verbatim>\<open>`${key}`\<close> for a key that may be missing.\<close>

definition key_str :: "string option \<Rightarrow> string" where
  "key_str k = (case k of Some s \<Rightarrow> s | None \<Rightarrow> ''undefined'')"

text \<open>\<^verbatim>\<open>a || b\<close> on optional strings.\<close>

definition or_else :: "string option \<Rightarrow> string option \<Rightarrow> string option" where
  "or_else a b = (if given a then a else b)"

text \<open>
  \<^verbatim>\<open>fetchFulltext\<close> (current code): a direct fetch of the fulltext endpoint; a 404, any
  other status that is not ok, and any error thrown all answer \<^verbatim>\<open>null\<close>.
\<close>

definition fetchFulltext :: "world \<Rightarrow> string \<Rightarrow> ft_data option" where
  "fetchFulltext w key =
     (case fulltext_fetch w key of
        Inl e \<Rightarrow> None
      | Inr resp \<Rightarrow>
          if f_status resp = 404 then None
          else if \<not> f_ok resp then None
          else (case f_json resp of Inl e \<Rightarrow> None | Inr data \<Rightarrow> Some data))"

text \<open>\<^verbatim>\<open>ftData?.content\<close> as a condition: there is data, with content that is not empty.\<close>

fun has_content :: "ft_data option \<Rightarrow> bool" where
  "has_content None = False"
| "has_content (Some ft) = given (ft_content ft)"

definition is_attachment :: "raw_item \<Rightarrow> bool" where
  "is_attachment c =
     (case r_data c of
        None \<Rightarrow> False
      | Some d \<Rightarrow> d_itemType d = Some ''attachment'' \<and> given (d_contentType d))"

definition is_pdf :: "raw_item \<Rightarrow> bool" where
  "is_pdf a =
     (case r_data a of
        None \<Rightarrow> False
      | Some d \<Rightarrow> (case d_contentType d of None \<Rightarrow> False | Some ct \<Rightarrow> str_includes ct ''pdf''))"

definition att_filename :: "raw_item \<Rightarrow> string option" where
  "att_filename a =
     (case r_data a of None \<Rightarrow> None | Some d \<Rightarrow> or_else (d_filename d) (d_title d))"

text \<open>
  The loop \<^verbatim>\<open>for (const att of orderedAttachments)\<close>: one fetch per attachment, in the
  order of the list, ended by the first attachment that has content.
\<close>

fun probe_attachments ::
  "world \<Rightarrow> string \<Rightarrow> raw_item list \<Rightarrow> fulltext_result option \<times> request list" where
  "probe_attachments w itemKey [] = (None, [])"
| "probe_attachments w itemKey (att # rest) =
     (let ftData = fetchFulltext w (key_str (r_key att)) in
      if has_content ftData
      then (Some (FtFound itemKey (r_key att) (att_filename att)
                    (the (ft_content (the ftData))) (the ftData) ''child_attachment_fulltext''),
            [FulltextFetch (key_str (r_key att))])
      else (fst (probe_attachments w itemKey rest),
            FulltextFetch (key_str (r_key att)) # snd (probe_attachments w itemKey rest)))"

definition orderedAttachments :: "raw_item list \<Rightarrow> raw_item list" where
  "orderedAttachments attachments =
     filter is_pdf attachments @ filter (\<lambda>a. \<not> is_pdf a) attachments"

definition not_indexed_message :: string where
  "not_indexed_message =
     ''PDF has not been indexed by Zotero. Full-text indexing happens in Zotero desktop and must sync to the cloud. ''
     @ ''Try: 1) Open Zotero desktop, 2) Right-click the PDF '' @ [CHR 0xE2, CHR 0x86, CHR 0x92]
     @ '' 'Reindex Item', 3) Sync your library.''"

definition no_attachments_message :: string where
  "no_attachments_message =
     ''This item has no attachments. Full-text is only available for items with PDF or text attachments.''"

definition no_fulltext_message :: string where
  "no_fulltext_message =
     ''No full-text content available. PDFs must be indexed by Zotero desktop before full-text is accessible via the API. ''
     @ ''Try: 1) Open Zotero desktop, 2) Right-click the item '' @ [CHR 0xE2, CHR 0x86, CHR 0x92]
     @ '' 'Reindex Item', 3) Sync your library, then try again.''"

text \<open>\<^verbatim>\<open>getItemFulltext\<close>, current code (\<^verbatim>\<open>packages/mcp/src/zotero.ts\<close>).\<close>

definition getItemFulltext :: "world \<Rightarrow> string \<Rightarrow> fulltext_result \<times> request list" where
  "getItemFulltext w itemKey =
     (case item_get w itemKey of
        Inl e \<Rightarrow> (FtError (''Failed to get fulltext: '' @ message e), [ItemGet itemKey])
      | Inr raw \<Rightarrow>
          (let itemData = (case r_data raw of Some d \<Rightarrow> d | None \<Rightarrow> r_self raw) in
           if d_itemType itemData = Some ''attachment'' then
             (let contentType = (if given (d_contentType itemData)
                                 then the (d_contentType itemData) else []);
                  filename = (case or_else (d_filename itemData) (d_title itemData) of
                                Some f \<Rightarrow> if f = [] then ''unknown'' else f
                              | None \<Rightarrow> ''unknown'');
                  ftData = fetchFulltext w itemKey
              in ((if has_content ftData
                   then FtFound itemKey None None (the (ft_content (the ftData))) (the ftData)
                          ''fulltext_api''
                   else FtAbsent itemKey
                          (if str_includes contentType ''pdf'' then not_indexed_message
                           else ''Attachment type '' @ [CHR 0x27] @ contentType @ [CHR 0x27]
                                  @ '' does not support full-text extraction.'')
                          (Some contentType) (Some filename) None),
                  [ItemGet itemKey, FulltextFetch itemKey]))
           else
             (case children_get w itemKey of
                Inl e \<Rightarrow>
                  (FtError (''Failed to get fulltext: '' @ message e),
                   [ItemGet itemKey, ChildrenGet itemKey])
              | Inr childrenRaw \<Rightarrow>
                  (let children = (case childrenRaw of Some c \<Rightarrow> c | None \<Rightarrow> []);
                       attachments = filter is_attachment children
                   in if length attachments = 0 then
                        (FtAbsent itemKey no_attachments_message None None None,
                         [ItemGet itemKey, ChildrenGet itemKey])
                      else
                        (let probed = probe_attachments w itemKey (orderedAttachments attachments)
                         in ((case fst probed of
                                Some found \<Rightarrow> found
                              | None \<Rightarrow>
                                  FtAbsent itemKey no_fulltext_message None None
                                    (Some (map (\<lambda>a. (r_key a, att_filename a,
                                                       (case r_data a of
                                                          None \<Rightarrow> None
                                                        | Some d \<Rightarrow> d_contentType d)))
                                             attachments))),
                             [ItemGet itemKey, ChildrenGet itemKey] @ snd probed))))))"

text \<open>
  \<^verbatim>\<open>getItemFulltext\<close>, legacy code (\<^verbatim>\<open>src/zotero.ts\<close>): the item's own fulltext is
  asked for first, then each child attachment in the order the store lists them, with
  \<^verbatim>\<open>zot.items(key).fulltext().get()\<close>. The client has no \<^verbatim>\<open>fulltext\<close> method (the
  current code fetches the endpoint itself): the call throws a TypeError before any
  request is made. Each call is in a \<^verbatim>\<open>try\<close> of its own, which swallows the error.
\<close>

definition no_data :: ft_data where
  "no_data = \<lparr>ft_content = None, ft_indexedPages = None, ft_totalPages = None,
              ft_indexedChars = None, ft_totalChars = None\<rparr>"

definition client_fulltext :: "string \<Rightarrow> js_error + ft_data option" where
  "client_fulltext key =
     Inl (JsError TypeError ''zot.items(...).fulltext is not a function'')"

definition try_client_fulltext :: "string \<Rightarrow> ft_data option" where
  "try_client_fulltext key = (case client_fulltext key of Inl e \<Rightarrow> None | Inr d \<Rightarrow> d)"

fun probe_attachments_legacy :: "string \<Rightarrow> raw_item list \<Rightarrow> fulltext_result option" where
  "probe_attachments_legacy itemKey [] = None"
| "probe_attachments_legacy itemKey (att # rest) =
     (let ftData = try_client_fulltext (key_str (r_key att)) in
      if has_content ftData
      then Some (FtFound itemKey (r_key att) None (the (ft_content (the ftData))) no_data
                   ''child_attachment_fulltext'')
      else probe_attachments_legacy itemKey rest)"

definition getItemFulltext_legacy :: "world \<Rightarrow> string \<Rightarrow> fulltext_result \<times> request list" where
  "getItemFulltext_legacy w itemKey =
     (let ftData = try_client_fulltext itemKey in
      if has_content ftData
      then (FtFound itemKey None None (the (ft_content (the ftData))) no_data ''fulltext_api'',
            [])
      else
        (case children_get w itemKey of
           Inl e \<Rightarrow> (FtError (message e), [ChildrenGet itemKey])
         | Inr childrenRaw \<Rightarrow>
             (let attachments =
                    filter is_attachment (case childrenRaw of Some c \<Rightarrow> c | None \<Rightarrow> [])
              in ((case probe_attachments_legacy itemKey attachments of
                     Some found \<Rightarrow> found
                   | None \<Rightarrow>
                       FtAbsent itemKey ''No full-text content available for this item.''
                         None None None),
                  [ChildrenGet itemKey]))))"

section \<open>Change Reconciler\<close>

record UpdateChanges =
  uc_title :: "string option"
  uc_abstract :: "string option"
  uc_date :: "string option"
  uc_extra :: "string option"
  uc_tags :: "string list option"
  uc_add_tags :: "string list option"
  uc_remove_tags :: "string list option"
  uc_collections :: "string list option"
  uc_add_collections :: "string list option"
  uc_remove_collections :: "string list option"

datatype update_result = Updated string string | UpdateFailed string

text \<open>\<^verbatim>\<open>for (const t of add) { if (!updated.includes(t)) updated.push(t); }\<close>\<close>

fun push_missing :: "'a list \<Rightarrow> 'a list \<Rightarrow> 'a list" where
  "push_missing updated [] = updated"
| "push_missing updated (t # ts) =
     push_missing (if t \<in> set updated then updated else updated @ [t]) ts"

text \<open>
  The add and remove steps on a list of current values: \<^verbatim>\<open>add\<close> entries not yet there
  are appended, then every entry that \<^verbatim>\<open>remove\<close> lists is filtered out. A list that is
  not given is skipped.
\<close>

definition add_then_remove :: "'a list \<Rightarrow> 'a list option \<Rightarrow> 'a list option \<Rightarrow> 'a list" where
  "add_then_remove existing add remove =
     (let updated = (case add of Some a \<Rightarrow> push_missing existing a | None \<Rightarrow> existing)
      in case remove of
           Some r \<Rightarrow> filter (\<lambda>t. t \<notin> set r) updated
         | None \<Rightarrow> updated)"

definition as_tag_object :: "raw_tag \<Rightarrow> raw_tag" where
  "as_tag_object t = TagObject (Some t)"

text \<open>
  The tags written into the patch by the current code: \<open>Inr None\<close> leaves the tags out
  of the patch, \<open>Inl\<close> is the \<^verbatim>\<open>TypeError\<close> of reading \<^verbatim>\<open>currentData.tags\<close> when the
  item came without a data object.
\<close>

definition patch_tags ::
  "item_data option \<Rightarrow> UpdateChanges \<Rightarrow> js_error + raw_tag list option" where
  "patch_tags currentData changes =
     (case uc_tags changes of
        Some tags \<Rightarrow> Inr (Some (map (\<lambda>t. as_tag_object (TagString t)) tags))
      | None \<Rightarrow>
          if uc_add_tags changes \<noteq> None \<or> uc_remove_tags changes \<noteq> None then
            (case currentData of
               None \<Rightarrow>
                 Inl (JsError TypeError
                        ''Cannot read properties of undefined (reading 'tags')'')
             | Some d \<Rightarrow>
                 (let existingTags =
                        map tag_or_self (case d_tags d of Some ts \<Rightarrow> ts | None \<Rightarrow> [])
                  in Inr (Some (map as_tag_object
                                  (add_then_remove existingTags
                                     (map_option (map TagString) (uc_add_tags changes))
                                     (map_option (map TagString) (uc_remove_tags changes)))))))
          else Inr None)"

definition patch_collections ::
  "item_data option \<Rightarrow> UpdateChanges \<Rightarrow> js_error + string list option" where
  "patch_collections currentData changes =
     (case uc_collections changes of
        Some cs \<Rightarrow> Inr (Some cs)
      | None \<Rightarrow>
          if uc_add_collections changes \<noteq> None \<or> uc_remove_collections changes \<noteq> None then
            (case currentData of
               None \<Rightarrow>
                 Inl (JsError TypeError
                        ''Cannot read properties of undefined (reading 'collections')'')
             | Some d \<Rightarrow>
                 Inr (Some (add_then_remove
                              (case d_collections d of Some cs \<Rightarrow> cs | None \<Rightarrow> [])
                              (uc_add_collections changes) (uc_remove_collections changes))))
          else Inr None)"

text \<open>
  \<^verbatim>\<open>updateItem\<close>, current code: one read, the patch built from it, one
  \<^verbatim>\<open>version(version).patch(patch)\<close>. The whole body is one \<^verbatim>\<open>try\<close>; its \<^verbatim>\<open>catch\<close>
  answers \<^verbatim>\<open>{ success: false, error: err.message }\<close>.
\<close>

definition updateItem :: "world \<Rightarrow> string \<Rightarrow> UpdateChanges \<Rightarrow> update_result \<times> request list" where
  "updateItem w itemKey changes =
     (case item_get w itemKey of
        Inl e \<Rightarrow> (UpdateFailed (message e), [ItemGet itemKey])
      | Inr raw \<Rightarrow>
          (let version = r_version raw;
               currentData = r_data raw
           in case patch_tags currentData changes of
                Inl e \<Rightarrow> (UpdateFailed (message e), [ItemGet itemKey])
              | Inr tags \<Rightarrow>
                  (case patch_collections currentData changes of
                     Inl e \<Rightarrow> (UpdateFailed (message e), [ItemGet itemKey])
                   | Inr collections \<Rightarrow>
                       (let body = Partial \<lparr>pt_title = uc_title changes,
                                            pt_abstractNote = uc_abstract changes,
                                            pt_date = uc_date changes,
                                            pt_extra = uc_extra changes,
                                            pt_tags = tags,
                                            pt_collections = collections\<rparr>
                        in ((case item_patch w itemKey (Some version) body of
                               Inl e \<Rightarrow> UpdateFailed (message e)
                             | Inr u \<Rightarrow>
                                 Updated itemKey (''Item '' @ itemKey @ '' updated'')),
                            [ItemGet itemKey, ItemPatch itemKey (Some version) body])))))"

text \<open>
  \<^verbatim>\<open>updateItem\<close>, legacy code: the changes are written into a copy of the whole data
  object, and the request is made with \<^verbatim>\<open>patch(version, data)\<close>: the version number is
  the body sent, the data object is passed where the client expects options.
\<close>

definition empty_data :: item_data where
  "empty_data =
     \<lparr>d_key = None, d_itemType = None, d_title = None, d_creators = None, d_date = None,
      d_tags = None, d_url = None, d_contentType = None, d_filename = None,
      d_abstractNote = None, d_extra = None, d_collections = None, d_dateModified = None\<rparr>"

definition legacy_data :: "item_data \<Rightarrow> UpdateChanges \<Rightarrow> item_data" where
  "legacy_data data0 changes =
     (let d1 = (case uc_title changes of Some v \<Rightarrow> data0\<lparr>d_title := Some v\<rparr> | None \<Rightarrow> data0);
          d2 = (case uc_abstract changes of Some v \<Rightarrow> d1\<lparr>d_abstractNote := Some v\<rparr> | None \<Rightarrow> d1);
          d3 = (case uc_date changes of Some v \<Rightarrow> d2\<lparr>d_date := Some v\<rparr> | None \<Rightarrow> d2);
          d4 = (case uc_extra changes of Some v \<Rightarrow> d3\<lparr>d_extra := Some v\<rparr> | None \<Rightarrow> d3);
          d5 = (case uc_tags changes of
                  Some tags \<Rightarrow> d4\<lparr>d_tags := Some (map (\<lambda>t. as_tag_object (TagString t)) tags)\<rparr>
                | None \<Rightarrow>
                    (let existingTags =
                           map tag_or_self (case d_tags d4 of Some ts \<Rightarrow> ts | None \<Rightarrow> []);
                         updated = add_then_remove existingTags
                                     (map_option (map TagString) (uc_add_tags changes))
                                     (map_option (map TagString) (uc_remove_tags changes))
                     in if uc_add_tags changes \<noteq> None \<or> uc_remove_tags changes \<noteq> None
                        then d4\<lparr>d_tags := Some (map as_tag_object updated)\<rparr>
                        else d4))
      in case uc_collections changes of
           Some cs \<Rightarrow> d5\<lparr>d_collections := Some cs\<rparr>
         | None \<Rightarrow> d5)"

definition updateItem_legacy ::
  "world \<Rightarrow> string \<Rightarrow> UpdateChanges \<Rightarrow> update_result \<times> request list" where
  "updateItem_legacy w itemKey changes =
     (case item_get w itemKey of
        Inl e \<Rightarrow> (UpdateFailed (message e), [ItemGet itemKey])
      | Inr raw \<Rightarrow>
          (let version = r_version raw;
               data = legacy_data (case r_data raw of Some d \<Rightarrow> d | None \<Rightarrow> empty_data) changes
           in ((case item_patch w itemKey None (VersionAsBody version data) of
                  Inl e \<Rightarrow> UpdateFailed (message e)
                | Inr u \<Rightarrow> Updated itemKey (''Item '' @ itemKey @ '' updated'')),
               [ItemGet itemKey, ItemPatch itemKey None (VersionAsBody version data)])))"

section \<open>Listings\<close>

text \<open>
  A JavaScript number that came out of \<^verbatim>\<open>parseInt\<close>: an integer or \<^verbatim>\<open>NaN\<close> (the
  rounding of integers beyond \<open>2^53\<close> is not modelled).
\<close>

datatype js_number = NaN | Num int

definition is_digit :: "char \<Rightarrow> bool" where
  "is_digit c = (let n = (of_char c :: nat) in 48 \<le> n \<and> n \<le> 57)"

definition digits_value :: "string \<Rightarrow> nat" where
  "digits_value ds = foldl (\<lambda>acc c. 10 * acc + (of_char c - 48)) 0 ds"

text \<open>\<^verbatim>\<open>parseInt(s, 10)\<close>: leading white space, a sign, then the longest run of digits.\<close>

definition parseInt10 :: "string \<Rightarrow> js_number" where
  "parseInt10 s =
     (let t = dropWhile is_space s;
          neg = (t \<noteq> [] \<and> hd t = CHR ''-'');
          u = (if t \<noteq> [] \<and> (hd t = CHR ''-'' \<or> hd t = CHR ''+'') then tl t else t);
          ds = takeWhile is_digit u
      in if ds = [] then NaN
         else Num (if neg then - int (digits_value ds) else int (digits_value ds)))"

record item_summary =
  s_key :: "string option"
  s_title :: string
  s_itemType :: "string option"
  s_creators :: "string option"
  s_date :: "string option"
  s_tags :: "raw_tag list"
  s_url :: "string option"

definition creator_name :: "creator \<Rightarrow> string" where
  "creator_name c =
     (if given (c_name c) then the (c_name c)
      else trim ((if given (c_firstName c) then the (c_firstName c) else []) @ '' ''
                 @ (if given (c_lastName c) then the (c_lastName c) else [])))"

text \<open>\<^verbatim>\<open>a || null\<close> on an optional string.\<close>

definition or_null :: "string option \<Rightarrow> string option" where
  "or_null a = (if given a then a else None)"

definition formatItemSummary :: "raw_item \<Rightarrow> item_summary" where
  "formatItemSummary raw =
     (let d = (case r_data raw of Some d \<Rightarrow> d | None \<Rightarrow> r_self raw);
          creators = join_with ''; ''
                       (filter (\<lambda>n. n \<noteq> [])
                          (map creator_name (case d_creators d of Some cs \<Rightarrow> cs | None \<Rightarrow> [])))
      in \<lparr>s_key = or_else (r_key raw) (d_key d),
          s_title = (if given (d_title d) then the (d_title d) else ''(untitled)''),
          s_itemType = d_itemType d,
          s_creators = (if creators = [] then None else Some creators),
          s_date = or_null (d_date d),
          s_tags = map tag_or_self (case d_tags d of Some ts \<Rightarrow> ts | None \<Rightarrow> []),
          s_url = or_null (d_url d)\<rparr>)"

text \<open>
  The filter of every listing:
  \<^verbatim>\<open>r.data?.itemType !== "attachment" && r.data?.itemType !== "note"\<close>. It reads the type
  in \<^verbatim>\<open>r.data\<close> only; an entry with no data object passes.
\<close>

definition is_listed :: "raw_item \<Rightarrow> bool" where
  "is_listed r =
     (case r_data r of
        None \<Rightarrow> True
      | Some d \<Rightarrow> d_itemType d \<noteq> Some ''attachment'' \<and> d_itemType d \<noteq> Some ''note'')"

definition listed_items :: "list_response \<Rightarrow> item_summary list" where
  "listed_items response =
     map formatItemSummary
       (filter is_listed (case l_raw response of Some r \<Rightarrow> r | None \<Rightarrow> []))"

text \<open>
  \<^verbatim>\<open>totalResults ? parseInt(totalResults, 10) : items.length\<close>, where \<^verbatim>\<open>totalResults\<close>
  is the \<^verbatim>\<open>Total-Results\<close> header or \<^verbatim>\<open>null\<close>.
\<close>

definition total_results :: "list_response \<Rightarrow> item_summary list \<Rightarrow> js_number" where
  "total_results response items =
     (if given (l_total_results response) then parseInt10 (the (l_total_results response))
      else Num (int (length items)))"

datatype tag_param = OneTag string | ManyTags "string list"

record SearchParams =
  sp_query :: "string option"
  sp_qmode :: "string option"
  sp_tag :: "tag_param option"
  sp_itemType :: "string option"
  sp_collectionId :: "string option"
  sp_sort :: "string option"
  sp_direction :: "string option"
  sp_limit :: "nat option"
  sp_offset :: "nat option"

text \<open>
  The answer of a listing: \<^verbatim>\<open>{ error }\<close>, or the items with (for the two paged
  listings) the total, the offset and the limit.
\<close>

datatype list_result =
    ListError string
  | Listing "item_summary list" "js_number option" "nat option" "nat option"

fun result_items :: "list_result \<Rightarrow> item_summary list" where
  "result_items (ListError e) = []"
| "result_items (Listing items n off lim) = items"

definition default_to :: "'a \<Rightarrow> 'a option \<Rightarrow> 'a" where
  "default_to d v = (case v of Some x \<Rightarrow> x | None \<Rightarrow> d)"

text \<open>
  \<^verbatim>\<open>reqParams\<close> of \<^verbatim>\<open>searchItems\<close>. The current code sends \<^verbatim>\<open>qmode\<close> with a query
  (\<open>with_qmode\<close>); the legacy code has no such parameter and is otherwise the same.
\<close>

definition search_reqParams :: "bool \<Rightarrow> SearchParams \<Rightarrow> req_params" where
  "search_reqParams with_qmode params =
     \<lparr>q_sort = Some (default_to ''dateModified'' (sp_sort params)),
      q_direction = Some (default_to ''desc'' (sp_direction params)),
      q_limit = Some (default_to 25 (sp_limit params)),
      q_start = Some (default_to 0 (sp_offset params)),
      q_q = (if given (sp_query params) then sp_query params else None),
      q_qmode = (if with_qmode \<and> given (sp_query params)
                 then Some (default_to ''titleCreatorYear'' (sp_qmode params)) else None),
      q_tag = (case sp_tag params of
                 None \<Rightarrow> None
               | Some (OneTag t) \<Rightarrow> if t = [] then None else Some t
               | Some (ManyTags ts) \<Rightarrow> Some (join_with '' || '' ts)),
      q_itemType = (if given (sp_itemType params)
                    then Some (resolveItemType (the (sp_itemType params))) else None)\<rparr>"

definition search_with :: "bool \<Rightarrow> world \<Rightarrow> SearchParams \<Rightarrow> list_result \<times> request list" where
  "search_with with_qmode w params =
     (let reqParams = search_reqParams with_qmode params;
          answer = (if given (sp_collectionId params)
                    then collection_items_top_get w (the (sp_collectionId params)) reqParams
                    else items_top_get w reqParams);
          log = (if given (sp_collectionId params)
                 then [CollectionItemsTopGet (the (sp_collectionId params)) reqParams]
                 else [ItemsTopGet reqParams])
      in case answer of
           Inl e \<Rightarrow> (ListError (message e), log)
         | Inr response \<Rightarrow>
             (Listing (listed_items response)
                (Some (total_results response (listed_items response)))
                (Some (default_to 0 (sp_offset params)))
                (Some (default_to 25 (sp_limit params))),
              log))"

definition searchItems :: "world \<Rightarrow> SearchParams \<Rightarrow> list_result \<times> request list" where
  "searchItems = search_with True"

definition searchItems_legacy :: "world \<Rightarrow> SearchParams \<Rightarrow> list_result \<times> request list" where
  "searchItems_legacy = search_with False"

definition no_params :: req_params where
  "no_params = \<lparr>q_sort = None, q_direction = None, q_limit = None, q_start = None,
                 q_q = None, q_qmode = None, q_tag = None, q_itemType = None\<rparr>"

definition getCollectionItems ::
  "world \<Rightarrow> string \<Rightarrow> string option \<Rightarrow> string option \<Rightarrow> nat option \<Rightarrow> nat option \<Rightarrow>
   list_result \<times> request list" where
  "getCollectionItems w collectionId sortBy direction limit offset =
     (let reqParams = no_params\<lparr>q_sort := Some (default_to ''dateModified'' sortBy),
                                 q_direction := Some (default_to ''desc'' direction),
                                 q_limit := Some (default_to 25 limit),
                                 q_start := Some (default_to 0 offset)\<rparr>
      in case collection_items_top_get w collectionId reqParams of
           Inl e \<Rightarrow> (ListError (message e), [CollectionItemsTopGet collectionId reqParams])
         | Inr response \<Rightarrow>
             (Listing (listed_items response)
                (Some (total_results response (listed_items response)))
                (Some (default_to 0 offset)) (Some (default_to 25 limit)),
              [CollectionItemsTopGet collectionId reqParams]))"

definition getRecentItems ::
  "world \<Rightarrow> nat option \<Rightarrow> string option \<Rightarrow> list_result \<times> request list" where
  "getRecentItems w limit sortBy =
     (let reqParams = no_params\<lparr>q_sort := Some (default_to ''dateAdded'' sortBy),
                                 q_direction := Some ''desc'',
                                 q_limit := Some (default_to 10 limit)\<rparr>
      in case items_top_get w reqParams of
           Inl e \<Rightarrow> (ListError (message e), [ItemsTopGet reqParams])
         | Inr response \<Rightarrow>
             (Listing (listed_items response) None None None, [ItemsTopGet reqParams]))"

section \<open>Library Stats Aggregator\<close>

text \<open>
  \<^verbatim>\<open>listCollections\<close> has no \<^verbatim>\<open>try\<close>: an error of the request, or of reading a
  response that lacks \<^verbatim>\<open>raw\<close> or an entry that lacks \<^verbatim>\<open>data\<close>, leaves it (\<open>Inl\<close>).
\<close>

fun collection_entries ::
  "raw_collection list \<Rightarrow> js_error + (string \<times> string \<times> string option) list" where
  "collection_entries [] = Inr []"
| "collection_entries (c # cs) =
     (case rc_data c of
        None \<Rightarrow> Inl (JsError TypeError ''Cannot read properties of undefined (reading 'name')'')
      | Some (name, parent) \<Rightarrow>
          (case collection_entries cs of
             Inl e \<Rightarrow> Inl e
           | Inr rest \<Rightarrow> Inr ((rc_key c, name, or_null parent) # rest)))"

definition listCollections :: "world \<Rightarrow> js_error + (string \<times> string \<times> string option) list" where
  "listCollections w =
     (case collections_get w of
        Inl e \<Rightarrow> Inl e
      | Inr None \<Rightarrow> Inl (JsError TypeError ''Cannot read properties of undefined (reading 'map')'')
      | Inr (Some raw) \<Rightarrow> collection_entries raw)"

text \<open>
  \<^verbatim>\<open>listTags\<close> has a \<^verbatim>\<open>try\<close> around its request: an error does not leave it, it is
  answered as \<^verbatim>\<open>{ error: err.message }\<close>.
\<close>

datatype tags_result = TagsError string | Tags "(string \<times> nat) list" nat nat

definition listTags :: "world \<Rightarrow> nat option \<Rightarrow> nat option \<Rightarrow> tags_result" where
  "listTags w limit offset =
     (case tags_get w (default_to 100 limit) (default_to 0 offset) of
        Inl e \<Rightarrow> TagsError (message e)
      | Inr raw \<Rightarrow>
          Tags (map (\<lambda>t. (rt_tag t, default_to 0 (rt_numItems t))) (default_to [] raw))
            (default_to 0 offset) (default_to 100 limit))"

text \<open>\<^verbatim>\<open>tagsResult.tags || []\<close>: an error answer has no \<^verbatim>\<open>tags\<close> property.\<close>

fun tags_or_empty :: "tags_result \<Rightarrow> (string \<times> nat) list" where
  "tags_or_empty (TagsError e) = []"
| "tags_or_empty (Tags tags off lim) = tags"

record library_stats =
  total_items :: js_number
  total_collections :: nat
  total_tags :: nat
  collections :: "(string \<times> string) list"
  top_tags :: "(string \<times> nat) list"
  last_modified_item :: "(string \<times> string option) option"

datatype stats_result = StatsError string | Stats library_stats

definition stats_params :: req_params where
  "stats_params = no_params\<lparr>q_limit := Some 1, q_sort := Some ''dateModified'',
                             q_direction := Some ''desc''\<rparr>"

text \<open>
  \<^verbatim>\<open>getLibraryStats\<close>. The three queries are started together, so all three requests
  are made whatever their answers. \<^verbatim>\<open>Promise.all\<close> rejects when the item query or
  \<^verbatim>\<open>listCollections\<close> rejects (when both do, the message kept here is the item
  query's; which of the two the platform keeps depends on timing). The sort is the
  platform's stable sort with the comparator \<^verbatim>\<open>b.numItems - a.numItems\<close>.
\<close>

definition getLibraryStats :: "world \<Rightarrow> stats_result \<times> request list" where
  "getLibraryStats w =
     (let log = [ItemsTopGet stats_params, CollectionsGet, TagsGet 25 0];
          tagsResult = listTags w (Some 25) (Some 0)
      in case items_top_get w stats_params of
           Inl e \<Rightarrow> (StatsError (message e), log)
         | Inr itemsResp \<Rightarrow>
             (case listCollections w of
                Inl e \<Rightarrow> (StatsError (message e), log)
              | Inr collectionsResult \<Rightarrow>
                  (let totalItems = parseInt10 (if given (l_total_results itemsResp)
                                                then the (l_total_results itemsResp) else ''0'');
                       lastModified =
                         (case default_to [] (l_raw itemsResp) of
                            [] \<Rightarrow> None
                          | recentItem # others \<Rightarrow>
                              (case r_data recentItem of
                                 None \<Rightarrow> Some (''(untitled)'', None)
                               | Some d \<Rightarrow>
                                   Some (if given (d_title d) then the (d_title d)
                                         else ''(untitled)'',
                                         or_null (d_dateModified d))));
                       topTags = take 15 (sort_key (\<lambda>t. - int (snd t)) (tags_or_empty tagsResult))
                   in (Stats \<lparr>total_items = totalItems,
                              total_collections = length collectionsResult,
                              total_tags = length topTags,
                              collections = map (\<lambda>c. (fst c, fst (snd c))) collectionsResult,
                              top_tags = topTags,
                              last_modified_item = lastModified\<rparr>,
                       log))))"

section \<open>Notions used to state the properties\<close>

text \<open>
  The values of the candidate parameters that are present and not empty, in the order
  of the names given.
\<close>

definition candidates :: "parsed_url \<Rightarrow> string list \<Rightarrow> string list" where
  "candidates parsed names =
     filter (\<lambda>c. c \<noteq> []) (List.map_filter (searchParams_get parsed) names)"

text \<open>The child attachments of a parent item, in the order the store lists them.\<close>

definition child_attachments :: "raw_item list option \<Rightarrow> raw_item list" where
  "child_attachments cs = filter is_attachment (default_to [] cs)"

text \<open>An attachment whose fulltext request answers with content.\<close>

definition indexed :: "world \<Rightarrow> raw_item \<Rightarrow> bool" where
  "indexed w a = has_content (fetchFulltext w (key_str (r_key a)))"

text \<open>
  The attachments of a list that a sequential search with early return asks: those
  before the first one with content, and that one.
\<close>

definition probed :: "(raw_item \<Rightarrow> bool) \<Rightarrow> raw_item list \<Rightarrow> raw_item list" where
  "probed ix atts = takeWhile (\<lambda>a. \<not> ix a) atts @ take 1 (dropWhile (\<lambda>a. \<not> ix a) atts)"

text \<open>What \<^verbatim>\<open>updateItem\<close> answers once the patch request has been answered.\<close>

definition patch_answer ::
  "world \<Rightarrow> string \<Rightarrow> nat option \<Rightarrow> patch_body \<Rightarrow> update_result" where
  "patch_answer w k v body =
     (case item_patch w k v body of
        Inl e \<Rightarrow> UpdateFailed (message e)
      | Inr u \<Rightarrow> Updated k (''Item '' @ k @ '' updated''))"

text \<open>An entry of a listing that carries a data object, as the store's entries do.\<close>

definition has_data :: "raw_item \<Rightarrow> bool" where
  "has_data r = (r_data r \<noteq> None)"

section \<open>Concrete worlds\<close>

definition down :: js_error where
  "down = JsError NetworkFailure ''fetch failed''"

text \<open>A world in which every request fails.\<close>

definition offline :: world where
  "offline =
     \<lparr>url_parse = URL_parse,
      fetch = (\<lambda>u. Inl down),
      template_get = (\<lambda>t. Inl down),
      items_post = (\<lambda>t. Inl down),
      attachment_post = (\<lambda>k f b c. Inl down),
      item_get = (\<lambda>k. Inl down),
      children_get = (\<lambda>k. Inl down),
      fulltext_fetch = (\<lambda>k. Inl down),
      item_patch = (\<lambda>k v b. Inl down),
      items_top_get = (\<lambda>q. Inl down),
      collection_items_top_get = (\<lambda>c q. Inl down),
      collections_get = Inl down,
      tags_get = (\<lambda>l s. Inl down)\<rparr>"

definition entry :: "string \<Rightarrow> item_data \<Rightarrow> raw_item" where
  "entry k d = \<lparr>r_key = Some k, r_version = 7, r_data = Some d, r_self = empty_data\<rparr>"

definition book_data :: item_data where
  "book_data = empty_data\<lparr>d_itemType := Some ''book'', d_title := Some ''A Book'',
                          d_tags := Some [TagObject (Some (TagString ''x''))],
                          d_dateModified := Some ''2025-01-15T00:00:00Z''\<rparr>"

definition note_data :: item_data where
  "note_data = empty_data\<lparr>d_itemType := Some ''note''\<rparr>"

definition html_attachment :: item_data where
  "html_attachment =
     empty_data\<lparr>d_itemType := Some ''attachment'', d_title := Some ''Snapshot'',
                d_contentType := Some ''text/html''\<rparr>"

definition pdf_attachment :: item_data where
  "pdf_attachment =
     empty_data\<lparr>d_itemType := Some ''attachment'', d_filename := Some ''book.pdf'',
                d_contentType := Some ''application/pdf''\<rparr>"

definition text_of :: "string \<Rightarrow> ft_data" where
  "text_of k =
     no_data\<lparr>ft_content := Some (if k = ''PDF00001'' then ''pdf text'' else ''html text'')\<rparr>"

definition the_children :: "raw_item list" where
  "the_children =
     [entry ''NOTE0001'' note_data, entry ''HTML0001'' html_attachment,
      entry ''PDF00001'' pdf_attachment]"

text \<open>
  How a store that holds an item at version \<open>current\<close> answers a patch request: a body
  that is not an object is a bad request, a request without a version condition is
  refused, a request conditioned on another version than the current one fails its
  precondition. The client throws an error whose message is the status and its text.
\<close>

definition store_patch :: "nat \<Rightarrow> string \<Rightarrow> nat option \<Rightarrow> patch_body \<Rightarrow> js_error + unit" where
  "store_patch current k v b =
     (case b of
        VersionAsBody n d \<Rightarrow> Inl (JsError (ErrorResponse 400) ''400: Bad Request'')
      | Partial p \<Rightarrow>
          (case v of
             None \<Rightarrow> Inl (JsError (ErrorResponse 428) ''428: Precondition Required'')
           | Some n \<Rightarrow>
               if n = current then Inr ()
               else Inl (JsError (ErrorResponse 412) ''412: Precondition Failed'')))"

text \<open>
  A library with one book at version 7, tagged \<^verbatim>\<open>x\<close>, with three children: a note, an
  HTML snapshot and a PDF, both attachments indexed. The top-level listing also holds
  a standalone note and a standalone PDF.
\<close>

definition library :: world where
  "library =
     offline
       \<lparr>item_get := (\<lambda>k. Inr (entry k book_data)),
        children_get := (\<lambda>k. Inr (Some the_children)),
        fulltext_fetch :=
          (\<lambda>k. if k = ''HTML0001'' \<or> k = ''PDF00001''
                then Inr \<lparr>f_status = 200, f_ok = True, f_json = Inr (text_of k)\<rparr>
                else Inr \<lparr>f_status = 404, f_ok = False,
                         f_json = Inl (JsError TypeError ''Unexpected end of JSON input'')\<rparr>),
        item_patch := store_patch 7,
        items_top_get :=
          (\<lambda>q. Inr \<lparr>l_raw = Some [entry ''ITEM0001'' book_data, entry ''NOTE0002'' note_data,
                                   entry ''PDF00002'' pdf_attachment],
                     l_total_results = Some ''3''\<rparr>),
        collection_items_top_get :=
          (\<lambda>c q. Inr \<lparr>l_raw = Some [entry ''ITEM0001'' book_data, entry ''NOTE0002'' note_data],
                       l_total_results = None\<rparr>),
        collections_get := Inr (Some [\<lparr>rc_key = ''COLL0001'', rc_data = Some (''Papers'', None)\<rparr>]),
        tags_get := (\<lambda>l s. Inr (Some [\<lparr>rt_tag = ''x'', rt_numItems = Some 1\<rparr>,
                                       \<lparr>rt_tag = ''y'', rt_numItems = Some 4\<rparr>]))\<rparr>"




definition any_search :: SearchParams where
  "any_search =
     \<lparr>sp_query = None, sp_qmode = None, sp_tag = None, sp_itemType = None,
      sp_collectionId = None, sp_sort = None, sp_direction = None, sp_limit = None,
      sp_offset = None\<rparr>"

definition page :: "string \<Rightarrow> http_response" where
  "page u =
     \<lparr>h_ok = True, h_status = 200, h_statusText = ''OK'',
      h_content_type = Some (if endsWith u ''.pdf'' then ''application/pdf'' else ''text/html''),
      h_content_disposition = None,
      h_body = Inr (if endsWith u ''.pdf'' then ''%PDF-1.4''
                    else ''<html><title>Doc</title></html>'')\<rparr>"

definition created :: "template \<Rightarrow> write_response" where
  "created t =
     \<lparr>w_entity0 = Inr (Some (if map_of t ''itemType'' = Some (FString ''attachment'')
                             then ''ATT00001'' else ''ITEM0001'')),
      w_raw_json = ''{}'', w_raw_or_self_json = ''{}''\<rparr>"

definition webpage_template :: template where
  "webpage_template =
     [(''itemType'', FString ''webpage''), (''title'', FString []), (''creators'', FCreators []),
      (''abstractNote'', FString []), (''websiteTitle'', FString []), (''date'', FString []),
      (''url'', FString []), (''extra'', FString []), (''tags'', FTags []),
      (''collections'', FCollections [])]"

text \<open>
  A store that creates every item posted to it (\<^verbatim>\<open>ITEM0001\<close>, and \<^verbatim>\<open>ATT00001\<close> for an
  attachment item) and a network that serves every source URL, while every upload of a
  binary fails with a network error.
\<close>

definition upload_down :: world where
  "upload_down =
     offline\<lparr>fetch := (\<lambda>u. Inr (page u)),
              template_get := (\<lambda>t. Inr webpage_template),
              items_post := (\<lambda>t. Inr (created t)),
              attachment_post := (\<lambda>k f b c. Inl (JsError NetworkFailure ''socket hang up''))\<rparr>"

definition just_title :: "string \<Rightarrow> CreateItemParams" where
  "just_title t =
     \<lparr>p_title = t, p_itemType = None, p_authors = None, p_date = None, p_url = None,
      p_abstract = None, p_publication = None, p_volume = None, p_issue = None,
      p_pages = None, p_doi = None, p_tags = None, p_collectionId = None,
      p_pdfUrl = None, p_snapshotUrl = None, p_extra = None\<rparr>"

text \<open>The library with its tag query failing; the other two queries of the stats succeed.\<close>

definition tags_down :: world where
  "tags_down = library\<lparr>tags_get := (\<lambda>l s. Inl (JsError (ErrorResponse 500) ''500: Internal Server Error''))\<rparr>"

section \<open>Properties of the Type Resolver\<close>

lemma map_of_ITEM_TYPE_MAP_cases:
  "map_of ITEM_TYPE_MAP k = Some v \<Longrightarrow> (k, v) \<in> set ITEM_TYPE_MAP"
  by (rule map_of_SomeD)

text \<open>
  C9, at the failing input: the name \<^verbatim>\<open>constructor\<close> is not in the friendly-name table,
  yet it is not passed through: the lookup finds the member inherited from
  \<^verbatim>\<open>Object.prototype\<close>, which is truthy, and the resolver returns that member (a
  function), not the string it was given.
\<close>

theorem resolveItemType_constructor:
  "map_of ITEM_TYPE_MAP ''constructor'' = None \<and>
   resolveItemType ''constructor'' = JInherited ''constructor'' \<and>
   resolveItemType ''constructor'' \<noteq> JString ''constructor''"
  by code_simp

lemma resolveItemType_unknown:
  "ITEM_TYPE_MAP_get (toLowerCase x) = None \<Longrightarrow> resolveItemType x = JString x"
  by (simp add: resolveItemType_def)

lemma resolveItemType_friendly:
  "(k, v) \<in> set ITEM_TYPE_MAP \<Longrightarrow> resolveItemType k = JString v \<and> resolveItemType v = JString v"
  unfolding ITEM_TYPE_MAP_def
  apply (simp only: set_simps insert_iff empty_iff prod.inject)
  apply (elim disjE conjE; simp only:; code_simp)
  done

lemma resolveItemType_case_insensitive:
  "map_of ITEM_TYPE_MAP (toLowerCase x) = Some v \<Longrightarrow> resolveItemType x = JString v"
proof -
  assume a: "map_of ITEM_TYPE_MAP (toLowerCase x) = Some v"
  then have "(toLowerCase x, v) \<in> set ITEM_TYPE_MAP" by (rule map_of_SomeD)
  then have "v \<noteq> []" unfolding ITEM_TYPE_MAP_def by auto
  with a show ?thesis by (simp add: resolveItemType_def ITEM_TYPE_MAP_get_def)
qed

section \<open>Properties of the URL Unwrapper\<close>

lemma unwrapUrl_unparseable: "parse raw = None \<Longrightarrow> unwrapUrl parse raw = Inr raw"
  by (simp add: unwrapUrl_def)

text \<open>
  C7, at the failing input: the URL parses, its \<^verbatim>\<open>url\<close> parameter reads \<^verbatim>\<open>100%\<close>, and
  \<^verbatim>\<open>decodeURIComponent\<close> raises on it. The \<^verbatim>\<open>try\<close> of \<^verbatim>\<open>unwrapUrl\<close> covers only the
  parsing, so the error leaves the function: it does not return a string.
\<close>

theorem unwrapUrl_malformed_escape:
  "URL_parse ''https://example.com/a?url=100%25''
     = Some \<lparr>pathname = ''/a'', searchParams = [(''url'', ''100%'')]\<rparr> \<and>
   decodeURIComponent ''100%'' = None \<and>
   unwrapUrl URL_parse ''https://example.com/a?url=100%25''
     = Inl (JsError URIError ''URI malformed'') \<and>
   unwrapUrl URL_parse ''https://example.com/?url=%zz''
     = Inl (JsError URIError ''URI malformed'')"
  by code_simp

lemma unwrap_loop_scan:
  "list_all (\<lambda>c. decodeURIComponent c \<noteq> None) (candidates parsed names) \<Longrightarrow>
   unwrap_loop parsed isWrapper names =
     Inr (case filter is_http (List.map_filter decodeURIComponent (candidates parsed names)) of
            [] \<Rightarrow> None
          | d # ds \<Rightarrow> if isWrapper \<or> 2 \<le> length (path_segments (pathname parsed))
                      then Some d else None)"
proof (induction names)
  case Nil
  then show ?case by (simp add: candidates_def List.map_filter_simps)
next
  case (Cons param params)
  show ?case
  proof (cases "searchParams_get parsed param")
    case None
    with Cons show ?thesis by (simp add: candidates_def List.map_filter_simps)
  next
    case (Some candidate)
    show ?thesis
    proof (cases "candidate = []")
      case True
      with Some Cons show ?thesis by (simp add: candidates_def List.map_filter_simps)
    next
      case False
      with Some Cons.prems obtain decoded where
        d: "decodeURIComponent candidate = Some decoded"
        and rest: "list_all (\<lambda>c. decodeURIComponent c \<noteq> None) (candidates parsed params)"
        by (auto simp: candidates_def List.map_filter_simps)
      have c: "candidates parsed (param # params) = candidate # candidates parsed params"
        using Some False by (simp add: candidates_def List.map_filter_simps)
      show ?thesis
        using Cons.IH [OF rest] Some False d
        by (auto simp: c List.map_filter_simps split: list.splits)
    qed
  qed
qed

text \<open>
  C6, as amended: for a URL that parses and whose candidate parameters all decode, the
  candidates \<^verbatim>\<open>url, source, target, uri, link, src\<close> are read in that order (those absent
  or empty are skipped), and the result is the first decoded value that starts with
  \<^verbatim>\<open>http://\<close> or \<^verbatim>\<open>https://\<close>, provided the path has a wrapper signature or, with one
  leading and one trailing slash removed, splits at \<^verbatim>\<open>/\<close> into at least two segments
  (empty segments count). Otherwise the input is returned unchanged.
\<close>

theorem unwrapUrl_scan:
  assumes "parse raw = Some parsed"
    and "list_all (\<lambda>c. decodeURIComponent c \<noteq> None) (candidates parsed URL_PARAM_NAMES)"
  shows "unwrapUrl parse raw =
           Inr (case filter is_http
                       (List.map_filter decodeURIComponent (candidates parsed URL_PARAM_NAMES)) of
                  [] \<Rightarrow> raw
                | d # ds \<Rightarrow>
                    if WRAPPER_PATTERNS_test (pathname parsed)
                       \<or> 2 \<le> length (path_segments (pathname parsed))
                    then d else raw)"
  using assms(1) unwrap_loop_scan [OF assms(2), of "WRAPPER_PATTERNS_test (pathname parsed)"]
  by (simp add: unwrapUrl_def split: list.splits)

text \<open>
  The theorem at a rendering proxy's URL: the \<^verbatim>\<open>src\<close> parameter is present but is no
  URL, the \<^verbatim>\<open>url\<close> parameter is returned.
\<close>

theorem unwrapUrl_scan_witness:
  "URL_parse ''https://r.example/pdfRenderer.svc/v1?src=x&url=https%3A%2F%2Finner.example%2Fx.pdf#f''
     = Some \<lparr>pathname = ''/pdfRenderer.svc/v1'',
             searchParams = [(''src'', ''x''), (''url'', ''https://inner.example/x.pdf'')]\<rparr> \<and>
   list_all (\<lambda>c. decodeURIComponent c \<noteq> None)
     (candidates \<lparr>pathname = ''/pdfRenderer.svc/v1'',
                  searchParams = [(''src'', ''x''), (''url'', ''https://inner.example/x.pdf'')]\<rparr>
        URL_PARAM_NAMES) \<and>
   unwrapUrl URL_parse
     ''https://r.example/pdfRenderer.svc/v1?src=x&url=https%3A%2F%2Finner.example%2Fx.pdf#f''
     = Inr ''https://inner.example/x.pdf''"
proof -
  let ?raw = "''https://r.example/pdfRenderer.svc/v1?src=x&url=https%3A%2F%2Finner.example%2Fx.pdf#f''"
  let ?p = "\<lparr>pathname = ''/pdfRenderer.svc/v1'',
             searchParams = [(''src'', ''x''), (''url'', ''https://inner.example/x.pdf'')]\<rparr>"
  have h1: "URL_parse ?raw = Some ?p" by code_simp
  have h2: "list_all (\<lambda>c. decodeURIComponent c \<noteq> None) (candidates ?p URL_PARAM_NAMES)"
    by code_simp
  have e: "(case filter is_http
                   (List.map_filter decodeURIComponent (candidates ?p URL_PARAM_NAMES)) of
              [] \<Rightarrow> ?raw
            | d # ds \<Rightarrow>
                if WRAPPER_PATTERNS_test (pathname ?p) \<or> 2 \<le> length (path_segments (pathname ?p))
                then d else ?raw) = ''https://inner.example/x.pdf''"
    by code_simp
  have "unwrapUrl URL_parse ?raw = Inr ''https://inner.example/x.pdf''"
    using unwrapUrl_scan [of URL_parse ?raw ?p, OF h1 h2] by (simp only: e)
  with h1 h2 show ?thesis by (intro conjI)
qed

text \<open>
  C6 as stated fails here: the path \<^verbatim>\<open>/a//\<close> has no wrapper signature and a single
  segment that is not empty, yet the inner URL is accepted, because the empty segment
  between the two closing slashes is counted.
\<close>

theorem unwrapUrl_empty_segment:
  "URL_parse ''https://example.com/a//?url=https%3A%2F%2Finner.example%2Fx.pdf''
     = Some \<lparr>pathname = ''/a//'',
             searchParams = [(''url'', ''https://inner.example/x.pdf'')]\<rparr> \<and>
   \<not> WRAPPER_PATTERNS_test ''/a//'' \<and>
   filter (\<lambda>seg. seg \<noteq> []) (split_char (CHR ''/'') ''/a//'') = [''a''] \<and>
   unwrapUrl URL_parse ''https://example.com/a//?url=https%3A%2F%2Finner.example%2Fx.pdf''
     = Inr ''https://inner.example/x.pdf''"
  by code_simp

section \<open>Properties of the Attachment Uploader and the Item Writer\<close>

lemma no_upload_without_registration:
  assumes "\<forall>r key. items_post w tmpl = Inr r \<longrightarrow> w_entity0 r \<noteq> Inr (Some key)"
  shows "snd (register_and_upload w tmpl filename buffer ct catch done) = [ItemsPost tmpl]"
  using assms
  by (auto simp: register_and_upload_def split: sum.splits option.splits)

lemma rejected_upload_keeps_key:
  assumes "items_post w tmpl = Inr r" and "w_entity0 r = Inr (Some key)"
    and "attachment_post w key filename buffer ct = Inr u" and "u_ok u = Some False"
  shows "a_success (fst (register_and_upload w tmpl filename buffer ct catch done)) = False \<and>
         a_attachment_key (fst (register_and_upload w tmpl filename buffer ct catch done))
           = Some key"
  using assms by (simp add: register_and_upload_def attach_failure_def)

text \<open>
  C4, at the failing input: the attachment is registered as \<^verbatim>\<open>ATT00001\<close>, the upload
  request is made and throws, and the failure that both operations answer carries no
  attachment key.
\<close>

theorem attach_upload_error_drops_key:
  "attachPdfFromUrl upload_down ''ITEM0001'' ''https://example.com/paper.pdf'' None
     = (Inr \<lparr>a_success = False, a_error = Some ''Failed to attach PDF: socket hang up'',
             a_attachment_key = None, a_filename = None, a_title = None,
             a_size_bytes = None\<rparr>,
        [Fetch ''https://example.com/paper.pdf'',
         ItemsPost (attachment_template ''ITEM0001'' ''paper.pdf'' ''application/pdf'' ''paper.pdf''),
         AttachmentPost ''ATT00001'' ''paper.pdf'' ''%PDF-1.4'' ''application/pdf'']) \<and>
   attachSnapshot upload_down ''ITEM0001'' ''https://example.com/page'' None
     = (Inr \<lparr>a_success = False, a_error = Some ''Failed to attach snapshot: socket hang up'',
             a_attachment_key = None, a_filename = None, a_title = None,
             a_size_bytes = None\<rparr>,
        [Fetch ''https://example.com/page'',
         ItemsPost (attachment_template ''ITEM0001'' ''Doc'' ''text/html'' ''Doc.html''),
         AttachmentPost ''ATT00001'' ''Doc.html'' ''<html><title>Doc</title></html>''
           ''text/html''])"
  by code_simp

lemma createItem_nests_pdf_result:
  assumes "template_get w (resolveItemType (default_to ''webpage'' (p_itemType params))) = Inr t0"
    and "items_post w (fill_template params t0) = Inr response"
    and "w_entity0 response = Inr (Some itemKey)"
    and "given (p_pdfUrl params)"
    and "fst (attachPdfFromUrl w itemKey (the (p_pdfUrl params)) None) = Inr a"
  shows "cr_success (fst (createItem w params)) \<and>
         cr_item_key (fst (createItem w params)) = Some itemKey \<and>
         cr_pdf_attachment (fst (createItem w params)) = Some a"
proof -
  obtain reqs where r: "attachPdfFromUrl w itemKey (the (p_pdfUrl params)) None = (Inr a, reqs)"
    using assms(5) by (cases "attachPdfFromUrl w itemKey (the (p_pdfUrl params)) None") auto
  have d: "(case p_itemType params of Some t \<Rightarrow> t | None \<Rightarrow> ''webpage'')
             = default_to ''webpage'' (p_itemType params)"
    by (simp add: default_to_def split: option.splits)
  show ?thesis
    using assms(1-4) r by (simp add: createItem_def Let_def d)
qed

text \<open>
  C3, at two failing inputs, on a store that persists the item as \<^verbatim>\<open>ITEM0001\<close>. With a
  source URL whose \<^verbatim>\<open>url\<close> parameter has a malformed escape, the error raised by
  \<^verbatim>\<open>unwrapUrl\<close> leaves the attachment operation and is caught by \<^verbatim>\<open>createItem\<close>: the
  answer is an overall failure without the item's key, although the item was posted
  and created. With a plain source URL and an upload that throws, the create succeeds
  and nests the failure, but the nested failure has lost the key \<^verbatim>\<open>ATT00001\<close> of the
  attachment that was registered.
\<close>

theorem createItem_attachment_error:
  "createItem upload_down ((just_title ''T'')\<lparr>p_pdfUrl := Some ''https://example.com/a?url=100%25''\<rparr>)
     = (\<lparr>cr_success = False, cr_item_key = None, cr_message = None,
         cr_error = Some ''URI malformed'', cr_pdf_attachment = None,
         cr_snapshot_attachment = None\<rparr>,
        [TemplateGet (JString ''webpage''),
         ItemsPost (assign ''title'' (FString ''T'') webpage_template)]) \<and>
   w_entity0 (created (assign ''title'' (FString ''T'') webpage_template)) = Inr (Some ''ITEM0001'') \<and>
   fst (createItem upload_down ((just_title ''T'')\<lparr>p_pdfUrl := Some ''https://example.com/paper.pdf''\<rparr>))
     = \<lparr>cr_success = True, cr_item_key = Some ''ITEM0001'',
        cr_message = Some ''Created webpage: T'', cr_error = None,
        cr_pdf_attachment =
          Some \<lparr>a_success = False, a_error = Some ''Failed to attach PDF: socket hang up'',
                a_attachment_key = None, a_filename = None, a_title = None,
                a_size_bytes = None\<rparr>,
        cr_snapshot_attachment = None\<rparr> \<and>
   AttachmentPost ''ATT00001'' ''paper.pdf'' ''%PDF-1.4'' ''application/pdf''
     \<in> set (snd (createItem upload_down
                    ((just_title ''T'')\<lparr>p_pdfUrl := Some ''https://example.com/paper.pdf''\<rparr>)))"
  by code_simp

section \<open>Properties of the Fulltext Resolver\<close>

lemma probe_attachments_eq:
  "probe_attachments w k atts =
     ((case dropWhile (\<lambda>a. \<not> indexed w a) atts of
         [] \<Rightarrow> None
       | a # rest \<Rightarrow>
           Some (FtFound k (r_key a) (att_filename a)
                   (the (ft_content (the (fetchFulltext w (key_str (r_key a))))))
                   (the (fetchFulltext w (key_str (r_key a)))) ''child_attachment_fulltext'')),
      map (\<lambda>a. FulltextFetch (key_str (r_key a))) (probed (indexed w) atts))"
  by (induction atts) (simp_all add: indexed_def probed_def Let_def)

lemma probed_prefix: "\<exists>n. probed ix atts = take n atts"
proof -
  have "probed ix atts = take (length (takeWhile (\<lambda>a. \<not> ix a) atts) + 1) atts"
    unfolding probed_def by (induction atts) auto
  then show ?thesis ..
qed

lemma pdf_first_in_prefix:
  assumes "i < j" and "j < length (take n (orderedAttachments atts))"
    and "is_pdf (take n (orderedAttachments atts) ! j)"
  shows "is_pdf (take n (orderedAttachments atts) ! i)"
proof -
  let ?p = "filter is_pdf atts" and ?o = "filter (\<lambda>a. \<not> is_pdf a) atts"
  have j: "j < length (?p @ ?o)" and jn: "j < n"
    using assms(2) by (simp_all add: orderedAttachments_def)
  have nj: "take n (orderedAttachments atts) ! j = (?p @ ?o) ! j"
    using jn by (simp only: orderedAttachments_def nth_take)
  have ni: "take n (orderedAttachments atts) ! i = (?p @ ?o) ! i"
    using jn assms(1) by (simp only: orderedAttachments_def nth_take less_trans)
  have "j < length ?p"
  proof (rule ccontr)
    assume "\<not> j < length ?p"
    then have "(?p @ ?o) ! j = ?o ! (j - length ?p)" and "j - length ?p < length ?o"
      using j by (simp_all add: nth_append)
    then have "(?p @ ?o) ! j \<in> set ?o" by (metis nth_mem)
    then show False using assms(3) nj by simp
  qed
  then have "i < length ?p" using assms(1) by simp
  then have "(?p @ ?o) ! i = ?p ! i" and "?p ! i \<in> set ?p"
    by (simp_all only: nth_append nth_mem if_True)
  then have "is_pdf ((?p @ ?o) ! i)" by (simp only: set_filter) simp
  then show ?thesis using ni by simp
qed

lemma pdf_first_probed:
  "\<forall>i j. i < j \<and> j < length (probed ix (orderedAttachments atts)) \<and>
          is_pdf (probed ix (orderedAttachments atts) ! j)
          \<longrightarrow> is_pdf (probed ix (orderedAttachments atts) ! i)"
proof -
  obtain n where n: "probed ix (orderedAttachments atts) = take n (orderedAttachments atts)"
    using probed_prefix by blast
  show ?thesis
    unfolding n using pdf_first_in_prefix by blast
qed

lemma default_to_case: "(case cs of Some c \<Rightarrow> c | None \<Rightarrow> []) = default_to [] cs"
  by (simp add: default_to_def)

lemma getItemFulltext_parent:
  assumes item: "item_get w k = Inr raw"
    and parent: "d_itemType (case r_data raw of Some d \<Rightarrow> d | None \<Rightarrow> r_self raw)
                   \<noteq> Some ''attachment''"
    and children: "children_get w k = Inr cs"
  shows "getItemFulltext w k =
      (if child_attachments cs = []
       then (FtAbsent k no_attachments_message None None None, [ItemGet k, ChildrenGet k])
       else ((case fst (probe_attachments w k (orderedAttachments (child_attachments cs))) of
                Some found \<Rightarrow> found
              | None \<Rightarrow> FtAbsent k no_fulltext_message None None
                          (Some (map (\<lambda>a. (r_key a, att_filename a,
                                             (case r_data a of
                                                None \<Rightarrow> None
                                              | Some d \<Rightarrow> d_contentType d)))
                                   (child_attachments cs)))),
             [ItemGet k, ChildrenGet k]
               @ snd (probe_attachments w k (orderedAttachments (child_attachments cs)))))"
  using item parent children
  by (simp add: getItemFulltext_def Let_def default_to_case child_attachments_def
        cong: option.case_cong)

lemma getItemFulltext_log:
  assumes item: "item_get w k = Inr raw"
    and parent: "d_itemType (case r_data raw of Some d \<Rightarrow> d | None \<Rightarrow> r_self raw)
                   \<noteq> Some ''attachment''"
    and children: "children_get w k = Inr cs"
  shows "snd (getItemFulltext w k)
           = [ItemGet k, ChildrenGet k]
               @ map (\<lambda>a. FulltextFetch (key_str (r_key a)))
                   (probed (indexed w) (orderedAttachments (child_attachments cs)))"
proof (cases "child_attachments cs = []")
  case True
  then show ?thesis
    by (simp add: getItemFulltext_parent [OF assms] probed_def orderedAttachments_def)
next
  case False
  then show ?thesis by (simp add: getItemFulltext_parent [OF assms] probe_attachments_eq)
qed

lemma getItemFulltext_answer:
  assumes item: "item_get w k = Inr raw"
    and parent: "d_itemType (case r_data raw of Some d \<Rightarrow> d | None \<Rightarrow> r_self raw)
                   \<noteq> Some ''attachment''"
    and children: "children_get w k = Inr cs"
  shows "fst (getItemFulltext w k)
           = (case dropWhile (\<lambda>a. \<not> indexed w a) (orderedAttachments (child_attachments cs)) of
                [] \<Rightarrow>
                  (if child_attachments cs = []
                   then FtAbsent k no_attachments_message None None None
                   else FtAbsent k no_fulltext_message None None
                          (Some (map (\<lambda>a. (r_key a, att_filename a,
                                             (case r_data a of
                                                None \<Rightarrow> None
                                              | Some d \<Rightarrow> d_contentType d)))
                                   (child_attachments cs))))
              | a # rest \<Rightarrow>
                  FtFound k (r_key a) (att_filename a)
                    (the (ft_content (the (fetchFulltext w (key_str (r_key a))))))
                    (the (fetchFulltext w (key_str (r_key a)))) ''child_attachment_fulltext'')"
proof (cases "child_attachments cs = []")
  case True
  then show ?thesis
    by (simp add: getItemFulltext_parent [OF assms] orderedAttachments_def)
next
  case False
  show ?thesis
  proof (cases "dropWhile (\<lambda>a. \<not> indexed w a) (orderedAttachments (child_attachments cs))")
    case Nil
    show ?thesis
      by (simp add: getItemFulltext_parent [OF assms] probe_attachments_eq False Nil
            del: dropWhile_eq_Nil_conv)
  next
    case (Cons a rest)
    show ?thesis
      by (simp add: getItemFulltext_parent [OF assms] probe_attachments_eq False Cons)
  qed
qed

text \<open>
  The current resolver: for a parent item whose children the store lists, it asks the
  attachments of PDF content type first and the others after them, each group in the
  store's order, one request per attachment, ending with the first that has content;
  every PDF asked stands before every other attachment asked. It answers with that
  attachment's content, or, when there is no attachment or none has content, with
  absent content and a message, never with an error.
\<close>

lemma getItemFulltext_probe_order:
  assumes item: "item_get w k = Inr raw"
    and parent: "d_itemType (case r_data raw of Some d \<Rightarrow> d | None \<Rightarrow> r_self raw)
                   \<noteq> Some ''attachment''"
    and children: "children_get w k = Inr cs"
  shows
    "orderedAttachments (child_attachments cs)
       = filter is_pdf (child_attachments cs) @ filter (\<lambda>a. \<not> is_pdf a) (child_attachments cs) \<and>
     snd (getItemFulltext w k)
       = [ItemGet k, ChildrenGet k]
           @ map (\<lambda>a. FulltextFetch (key_str (r_key a)))
               (probed (indexed w) (orderedAttachments (child_attachments cs))) \<and>
     (\<forall>i j. i < j \<and> j < length (probed (indexed w) (orderedAttachments (child_attachments cs))) \<and>
             is_pdf (probed (indexed w) (orderedAttachments (child_attachments cs)) ! j)
             \<longrightarrow> is_pdf (probed (indexed w) (orderedAttachments (child_attachments cs)) ! i)) \<and>
     fst (getItemFulltext w k)
       = (case dropWhile (\<lambda>a. \<not> indexed w a) (orderedAttachments (child_attachments cs)) of
            [] \<Rightarrow>
              (if child_attachments cs = []
               then FtAbsent k no_attachments_message None None None
               else FtAbsent k no_fulltext_message None None
                      (Some (map (\<lambda>a. (r_key a, att_filename a,
                                         (case r_data a of
                                            None \<Rightarrow> None
                                          | Some d \<Rightarrow> d_contentType d)))
                               (child_attachments cs))))
          | a # rest \<Rightarrow>
              FtFound k (r_key a) (att_filename a)
                (the (ft_content (the (fetchFulltext w (key_str (r_key a))))))
                (the (fetchFulltext w (key_str (r_key a)))) ''child_attachment_fulltext'')"
  apply (intro conjI)
     apply (rule orderedAttachments_def)
    apply (rule getItemFulltext_log [OF assms])
   apply (rule pdf_first_probed)
  apply (rule getItemFulltext_answer [OF assms])
  done

text \<open>
  The legacy resolver: the client call it makes for a fulltext throws before any request,
  and the \<^verbatim>\<open>try\<close> around it swallows the error. So no attachment is ever found to have
  content; the only request is the one for the children, and where the store answers it
  the result is absent content with the message, whatever the attachments hold.
\<close>

lemma try_client_fulltext_nothing: "try_client_fulltext key = None"
  by (simp add: try_client_fulltext_def client_fulltext_def)

lemma probe_attachments_legacy_nothing: "probe_attachments_legacy k atts = None"
  by (induction atts) (simp_all add: try_client_fulltext_nothing)

lemma getItemFulltext_legacy_nothing:
  "children_get w k = Inr cs \<Longrightarrow>
   getItemFulltext_legacy w k
     = (FtAbsent k ''No full-text content available for this item.'' None None None,
        [ChildrenGet k])"
  by (simp add: getItemFulltext_legacy_def try_client_fulltext_nothing
        probe_attachments_legacy_nothing)

lemma getItemFulltext_legacy_error:
  "children_get w k = Inl e \<Longrightarrow>
   getItemFulltext_legacy w k = (FtError (message e), [ChildrenGet k])"
  by (simp add: getItemFulltext_legacy_def try_client_fulltext_nothing)

text \<open>
  C1 holds of the current resolver (\<open>getItemFulltext_probe_order\<close>) and fails on the
  legacy resolver of \<^verbatim>\<open>src/zotero.ts\<close>. At the book of the library, whose children are a
  note, an HTML snapshot and a PDF that the store lists last, both attachments indexed:
  the current resolver asks the PDF alone and answers with its text; the legacy resolver
  asks the store for the children and nothing else, probes no attachment, PDF or other,
  and answers that there is no full-text content.
\<close>

theorem getItemFulltext_legacy_probes_nothing:
  "child_attachments (Some the_children)
     = [entry ''HTML0001'' html_attachment, entry ''PDF00001'' pdf_attachment] \<and>
   is_pdf (entry ''PDF00001'' pdf_attachment) \<and>
   indexed library (entry ''PDF00001'' pdf_attachment) \<and>
   getItemFulltext library ''ITEM0001''
     = (FtFound ''ITEM0001'' (Some ''PDF00001'') (Some ''book.pdf'') ''pdf text''
          (text_of ''PDF00001'') ''child_attachment_fulltext'',
        [ItemGet ''ITEM0001'', ChildrenGet ''ITEM0001'', FulltextFetch ''PDF00001'']) \<and>
   getItemFulltext_legacy library ''ITEM0001''
     = (FtAbsent ''ITEM0001'' ''No full-text content available for this item.''
          None None None,
        [ChildrenGet ''ITEM0001''])"
  by code_simp

section \<open>Properties of the Change Reconciler\<close>

lemma set_push_missing: "set (push_missing xs ys) = set xs \<union> set ys"
  by (induction ys arbitrary: xs) auto

lemma set_add_then_remove:
  "set (add_then_remove xs add remove)
     = (set xs \<union> set (default_to [] add)) - set (default_to [] remove)"
  by (cases add; cases remove)
     (auto simp: add_then_remove_def default_to_def set_push_missing)

lemma add_present_noop: "t \<in> set xs \<Longrightarrow> add_then_remove xs (Some [t]) None = xs"
  by (simp add: add_then_remove_def)

lemma remove_absent_noop: "t \<notin> set xs \<Longrightarrow> add_then_remove xs None (Some [t]) = xs"
  by (auto simp: add_then_remove_def filter_id_conv)

lemma patch_collections_data: "\<exists>cols. patch_collections (Some d) ch = Inr cols"
proof (cases "uc_collections ch")
  case None
  then show ?thesis by (simp add: patch_collections_def)
next
  case (Some cs)
  then show ?thesis by (simp add: patch_collections_def)
qed

lemma add_then_remove_same:
  "set (add_then_remove xs (Some [t]) (Some [t])) = set xs - {t}"
  by (simp add: set_add_then_remove default_to_def)

lemma patch_tags_set:
  "patch_tags (Some d) ch =
     Inr (case uc_tags ch of
            Some ts \<Rightarrow> Some (map (\<lambda>t. as_tag_object (TagString t)) ts)
          | None \<Rightarrow>
              if uc_add_tags ch = None \<and> uc_remove_tags ch = None then None
              else Some (map as_tag_object
                           (add_then_remove (map tag_or_self (default_to [] (d_tags d)))
                              (map_option (map TagString) (uc_add_tags ch))
                              (map_option (map TagString) (uc_remove_tags ch)))))"
  by (auto simp: patch_tags_def default_to_def Let_def split: option.splits)

lemma default_map_option:
  "set (default_to [] (map_option (map f) xs)) = f ` set (default_to [] xs)"
  by (cases xs) (simp_all add: default_to_def)

text \<open>
  The current reconciler: for an item read with its data, the patch it sends is
  conditioned on the version read and carries these tags. With a replacement list,
  exactly that list, whatever \<^verbatim>\<open>add_tags\<close> and \<^verbatim>\<open>remove_tags\<close> say. Without one and with
  neither list given, the tags are left out of the patch. Otherwise a list whose set is
  the current tags united with \<^verbatim>\<open>add_tags\<close>, minus \<^verbatim>\<open>remove_tags\<close>. Adding a tag that is
  there, and removing one that is not, therefore change nothing (\<open>add_present_noop\<close>,
  \<open>remove_absent_noop\<close>), and adding and removing the same tag leaves the current set
  without it (\<open>add_then_remove_same\<close>).
\<close>

lemma updateItem_tag_reconciliation:
  assumes item: "item_get w k = Inr raw" and data: "r_data raw = Some d"
  shows
    "\<exists>p. updateItem w k ch
            = (patch_answer w k (Some (r_version raw)) (Partial p),
               [ItemGet k, ItemPatch k (Some (r_version raw)) (Partial p)]) \<and>
          (case uc_tags ch of
             Some ts \<Rightarrow> pt_tags p = Some (map (\<lambda>t. as_tag_object (TagString t)) ts)
           | None \<Rightarrow>
               if uc_add_tags ch = None \<and> uc_remove_tags ch = None then pt_tags p = None
               else \<exists>names. pt_tags p = Some (map as_tag_object names) \<and>
                      set names
                        = (set (map tag_or_self (default_to [] (d_tags d)))
                             \<union> TagString ` set (default_to [] (uc_add_tags ch)))
                          - TagString ` set (default_to [] (uc_remove_tags ch)))"
proof -
  let ?names = "add_then_remove (map tag_or_self (default_to [] (d_tags d)))
                  (map_option (map TagString) (uc_add_tags ch))
                  (map_option (map TagString) (uc_remove_tags ch))"
  have names: "set ?names
                 = (set (map tag_or_self (default_to [] (d_tags d)))
                      \<union> TagString ` set (default_to [] (uc_add_tags ch)))
                   - TagString ` set (default_to [] (uc_remove_tags ch))"
    by (simp only: set_add_then_remove default_map_option)
  obtain cols where cols: "patch_collections (Some d) ch = Inr cols"
    using patch_collections_data by blast
  define p where "p = \<lparr>pt_title = uc_title ch, pt_abstractNote = uc_abstract ch,
                         pt_date = uc_date ch, pt_extra = uc_extra ch,
                         pt_tags = (case uc_tags ch of
                            Some ts \<Rightarrow> Some (map (\<lambda>t. as_tag_object (TagString t)) ts)
                          | None \<Rightarrow>
                              if uc_add_tags ch = None \<and> uc_remove_tags ch = None then None
                              else Some (map as_tag_object ?names)),
                         pt_collections = cols\<rparr>"
  have log: "updateItem w k ch
               = (patch_answer w k (Some (r_version raw)) (Partial p),
                  [ItemGet k, ItemPatch k (Some (r_version raw)) (Partial p)])"
    using item data cols
    by (simp add: updateItem_def patch_tags_set Let_def p_def patch_answer_def)
  have tags: "(case uc_tags ch of
             Some ts \<Rightarrow> pt_tags p = Some (map (\<lambda>t. as_tag_object (TagString t)) ts)
           | None \<Rightarrow>
               if uc_add_tags ch = None \<and> uc_remove_tags ch = None then pt_tags p = None
               else \<exists>names. pt_tags p = Some (map as_tag_object names) \<and>
                      set names
                        = (set (map tag_or_self (default_to [] (d_tags d)))
                             \<union> TagString ` set (default_to [] (uc_add_tags ch)))
                          - TagString ` set (default_to [] (uc_remove_tags ch)))"
  proof (cases "uc_tags ch")
    case (Some ts)
    then show ?thesis by (simp add: p_def)
  next
    case None
    show ?thesis
    proof (cases "uc_add_tags ch = None \<and> uc_remove_tags ch = None")
      case True
      with None show ?thesis by (simp add: p_def)
    next
      case False
      have "pt_tags p = Some (map as_tag_object ?names)"
        using None False by (simp add: p_def)
      with names None False show ?thesis by auto
    qed
  qed
  from log tags show ?thesis by (rule exI [of _ p, OF conjI])
qed

text \<open>
  The legacy reconciler: once the item is read, the one request it makes is a patch with
  no version condition, whose body is the version number; the data object into which
  the changes (the reconciled tags among them) were written is not the body.
\<close>

lemma updateItem_legacy_request:
  assumes item: "item_get w k = Inr raw"
  shows "\<exists>data. updateItem_legacy w k ch
                  = (patch_answer w k None (VersionAsBody (r_version raw) data),
                     [ItemGet k, ItemPatch k None (VersionAsBody (r_version raw) data)])"
  using item by (simp add: updateItem_legacy_def Let_def patch_answer_def)


lemma updateItem_read_failure:
  "item_get w k = Inl e \<Longrightarrow>
   updateItem w k ch = (UpdateFailed (message e), [ItemGet k]) \<and>
   updateItem_legacy w k ch = (UpdateFailed (message e), [ItemGet k])"
  by (simp add: updateItem_def updateItem_legacy_def)

text \<open>
  The current reconciler: an item read with its data is followed by exactly one more
  request, a patch conditioned on the version just read; nothing is read again and no
  patch is sent twice. Whatever error that request raises, a version mismatch included,
  the answer is \<^verbatim>\<open>{ success: false, error }\<close> with the message of that error. For an item
  read without its data, the same holds unless reading its tags or collections throws,
  in which case no patch is sent.
\<close>

lemma updateItem_versioned_patch:
  assumes item: "item_get w k = Inr raw" and data: "r_data raw = Some d"
  shows "\<exists>p. updateItem w k ch
               = (patch_answer w k (Some (r_version raw)) (Partial p),
                  [ItemGet k, ItemPatch k (Some (r_version raw)) (Partial p)])"
proof -
  obtain cols where cols: "patch_collections (Some d) ch = Inr cols"
    using patch_collections_data by blast
  show ?thesis
    using item data cols
    by (simp add: updateItem_def patch_tags_set Let_def patch_answer_def)
qed

lemma updateItem_patch_or_nothing:
  assumes item: "item_get w k = Inr raw"
  shows
    "(\<exists>m. updateItem w k ch = (UpdateFailed m, [ItemGet k])) \<or>
     (\<exists>p. updateItem w k ch
             = (patch_answer w k (Some (r_version raw)) (Partial p),
                [ItemGet k, ItemPatch k (Some (r_version raw)) (Partial p)]))"
proof (cases "patch_tags (r_data raw) ch")
  case (Inl e)
  with item show ?thesis by (simp add: updateItem_def)
next
  case tags: (Inr tags)
  show ?thesis
  proof (cases "patch_collections (r_data raw) ch")
    case (Inl e)
    with item tags show ?thesis by (simp add: updateItem_def)
  next
    case (Inr cols)
    with item tags show ?thesis
      by (simp add: updateItem_def Let_def patch_answer_def)
  qed
qed

lemma patch_answer_failure:
  "item_patch w k v body = Inl e \<Longrightarrow> patch_answer w k v body = UpdateFailed (message e)"
  by (simp add: patch_answer_def)


section \<open>Properties of the Listings\<close>

lemma listed_items_types:
  assumes "list_all has_data (default_to [] (l_raw response))"
    and "s \<in> set (listed_items response)"
  shows "s_itemType s \<noteq> Some ''attachment'' \<and> s_itemType s \<noteq> Some ''note''"
proof -
  from assms(2) obtain r where r: "r \<in> set (default_to [] (l_raw response))"
    and l: "is_listed r" and s: "s = formatItemSummary r"
    by (auto simp: listed_items_def default_to_def)
  from assms(1) r have "has_data r" by (simp add: list_all_iff)
  then obtain d where d: "r_data r = Some d" by (auto simp: has_data_def)
  with l s show ?thesis by (simp add: is_listed_def formatItemSummary_def Let_def)
qed

lemma search_with_items:
  "result_items (fst (search_with b w sp)) = [] \<or>
   (\<exists>response. (items_top_get w (search_reqParams b sp) = Inr response \<or>
                 (\<exists>c. collection_items_top_get w c (search_reqParams b sp) = Inr response)) \<and>
      result_items (fst (search_with b w sp)) = listed_items response)"
  by (auto simp: search_with_def Let_def split: sum.splits)

lemma getCollectionItems_items:
  "result_items (fst (getCollectionItems w c so d l off)) = [] \<or>
   (\<exists>response q. collection_items_top_get w c q = Inr response \<and>
      result_items (fst (getCollectionItems w c so d l off)) = listed_items response)"
  by (auto simp: getCollectionItems_def Let_def split: sum.splits)

lemma getRecentItems_items:
  "result_items (fst (getRecentItems w l so)) = [] \<or>
   (\<exists>response q. items_top_get w q = Inr response \<and>
      result_items (fst (getRecentItems w l so)) = listed_items response)"
  by (auto simp: getRecentItems_def Let_def split: sum.splits)

lemma searchItems_library:
  "fst (searchItems library any_search)
     = Listing [\<lparr>s_key = Some ''ITEM0001'', s_title = ''A Book'', s_itemType = Some ''book'',
                  s_creators = None, s_date = None, s_tags = [TagString ''x''],
                  s_url = None\<rparr>]
         (Some (Num 3)) (Some 0) (Some 25)"
  by code_simp

text \<open>
  C10: when every entry the store lists carries a data object, no summary returned by
  \<^verbatim>\<open>searchItems\<close> (current and legacy), \<^verbatim>\<open>getCollectionItems\<close> or \<^verbatim>\<open>getRecentItems\<close> has
  the type \<^verbatim>\<open>attachment\<close> or \<^verbatim>\<open>note\<close>; and the total reported, read from the store's
  header, can exceed the number of summaries returned.
\<close>

theorem listings_leave_out_children:
  assumes top: "\<forall>q response. items_top_get w q = Inr response
                  \<longrightarrow> list_all has_data (default_to [] (l_raw response))"
    and col: "\<forall>c q response. collection_items_top_get w c q = Inr response
                \<longrightarrow> list_all has_data (default_to [] (l_raw response))"
  shows
    "(\<forall>s \<in> set (result_items (fst (searchItems w sp))).
        s_itemType s \<noteq> Some ''attachment'' \<and> s_itemType s \<noteq> Some ''note'') \<and>
     (\<forall>s \<in> set (result_items (fst (searchItems_legacy w sp))).
        s_itemType s \<noteq> Some ''attachment'' \<and> s_itemType s \<noteq> Some ''note'') \<and>
     (\<forall>s \<in> set (result_items (fst (getCollectionItems w c so d l off))).
        s_itemType s \<noteq> Some ''attachment'' \<and> s_itemType s \<noteq> Some ''note'') \<and>
     (\<forall>s \<in> set (result_items (fst (getRecentItems w l so))).
        s_itemType s \<noteq> Some ''attachment'' \<and> s_itemType s \<noteq> Some ''note'') \<and>
     (\<exists>w' sp' items n off' lim'.
        fst (searchItems w' sp') = Listing items (Some (Num n)) off' lim' \<and>
        int (length items) < n)"
proof (intro conjI)
  have ok: "\<And>b s. s \<in> set (result_items (fst (search_with b w sp))) \<Longrightarrow>
              s_itemType s \<noteq> Some ''attachment'' \<and> s_itemType s \<noteq> Some ''note''"
  proof -
    fix b s
    assume s: "s \<in> set (result_items (fst (search_with b w sp)))"
    then have "result_items (fst (search_with b w sp)) \<noteq> []" by auto
    with search_with_items [of b w sp] obtain response where
      r: "items_top_get w (search_reqParams b sp) = Inr response \<or>
          (\<exists>c. collection_items_top_get w c (search_reqParams b sp) = Inr response)"
      and e: "result_items (fst (search_with b w sp)) = listed_items response"
      by blast
    from r top col have "list_all has_data (default_to [] (l_raw response))" by blast
    with s e show "s_itemType s \<noteq> Some ''attachment'' \<and> s_itemType s \<noteq> Some ''note''"
      using listed_items_types by simp
  qed
  show "\<forall>s \<in> set (result_items (fst (searchItems w sp))).
        s_itemType s \<noteq> Some ''attachment'' \<and> s_itemType s \<noteq> Some ''note''"
    unfolding searchItems_def using ok by blast
  show "\<forall>s \<in> set (result_items (fst (searchItems_legacy w sp))).
        s_itemType s \<noteq> Some ''attachment'' \<and> s_itemType s \<noteq> Some ''note''"
    unfolding searchItems_legacy_def using ok by blast
  show "\<forall>s \<in> set (result_items (fst (getCollectionItems w c so d l off))).
        s_itemType s \<noteq> Some ''attachment'' \<and> s_itemType s \<noteq> Some ''note''"
  proof
    fix s
    assume s: "s \<in> set (result_items (fst (getCollectionItems w c so d l off)))"
    then have "result_items (fst (getCollectionItems w c so d l off)) \<noteq> []" by auto
    with getCollectionItems_items [of w c so d l off] obtain response q where
      r: "collection_items_top_get w c q = Inr response"
      and e: "result_items (fst (getCollectionItems w c so d l off)) = listed_items response"
      by blast
    from r col have "list_all has_data (default_to [] (l_raw response))" by blast
    with s e show "s_itemType s \<noteq> Some ''attachment'' \<and> s_itemType s \<noteq> Some ''note''"
      using listed_items_types by simp
  qed
  show "\<forall>s \<in> set (result_items (fst (getRecentItems w l so))).
        s_itemType s \<noteq> Some ''attachment'' \<and> s_itemType s \<noteq> Some ''note''"
  proof
    fix s
    assume s: "s \<in> set (result_items (fst (getRecentItems w l so)))"
    then have "result_items (fst (getRecentItems w l so)) \<noteq> []" by auto
    with getRecentItems_items [of w l so] obtain response q where
      r: "items_top_get w q = Inr response"
      and e: "result_items (fst (getRecentItems w l so)) = listed_items response"
      by blast
    from r top have "list_all has_data (default_to [] (l_raw response))" by blast
    with s e show "s_itemType s \<noteq> Some ''attachment'' \<and> s_itemType s \<noteq> Some ''note''"
      using listed_items_types by simp
  qed
  show "\<exists>w' sp' items n off' lim'.
        fst (searchItems w' sp') = Listing items (Some (Num n)) off' lim' \<and>
        int (length items) < n"
    using searchItems_library by fastforce
qed

text \<open>
  The theorem at the library, whose top-level listing holds a book, a note and a PDF:
  the one summary returned is the book's.
\<close>

theorem listings_leave_out_children_witness:
  "list_all has_data [entry ''ITEM0001'' book_data, entry ''NOTE0002'' note_data,
                      entry ''PDF00002'' pdf_attachment] \<and>
   result_items (fst (searchItems library any_search)) \<noteq> [] \<and>
   list_all (\<lambda>s. s_itemType s \<noteq> Some ''attachment'' \<and> s_itemType s \<noteq> Some ''note'')
     (result_items (fst (searchItems library any_search)))"
proof -
  have d: "list_all has_data [entry ''ITEM0001'' book_data, entry ''NOTE0002'' note_data,
                              entry ''PDF00002'' pdf_attachment]"
    by code_simp
  have d2: "list_all has_data [entry ''ITEM0001'' book_data, entry ''NOTE0002'' note_data]"
    by code_simp
  have top: "\<forall>q response. items_top_get library q = Inr response
               \<longrightarrow> list_all has_data (default_to [] (l_raw response))"
    using d by (auto simp: library_def default_to_def)
  have col: "\<forall>c q response. collection_items_top_get library c q = Inr response
               \<longrightarrow> list_all has_data (default_to [] (l_raw response))"
    using d2 by (auto simp: library_def default_to_def)
  have ne: "result_items (fst (searchItems library any_search)) \<noteq> []"
    by (simp add: searchItems_library)
  from listings_leave_out_children [OF top col, of any_search]
  have "\<forall>s \<in> set (result_items (fst (searchItems library any_search))).
          s_itemType s \<noteq> Some ''attachment'' \<and> s_itemType s \<noteq> Some ''note''"
    by (rule conjunct1)
  then have "list_all (\<lambda>s. s_itemType s \<noteq> Some ''attachment'' \<and> s_itemType s \<noteq> Some ''note'')
     (result_items (fst (searchItems library any_search)))"
    by (simp only: list_all_iff)
  with d ne show ?thesis by (intro conjI)
qed

section \<open>Properties of the Library Stats Aggregator\<close>

lemma getLibraryStats_item_query_failure:
  "items_top_get w stats_params = Inl e \<Longrightarrow> fst (getLibraryStats w) = StatsError (message e)"
  by (simp add: getLibraryStats_def Let_def)

lemma getLibraryStats_collection_query_failure:
  "items_top_get w stats_params = Inr r \<Longrightarrow> collections_get w = Inl e \<Longrightarrow>
   fst (getLibraryStats w) = StatsError (message e)"
  by (simp add: getLibraryStats_def listCollections_def Let_def)

text \<open>
  C5, at the failing input: the tag query fails, the other two succeed. \<^verbatim>\<open>listTags\<close>
  catches the error and answers \<^verbatim>\<open>{ error }\<close>, which has no \<^verbatim>\<open>tags\<close>; the aggregation
  reads that as an empty list and answers with stats whose tag section is empty, where
  the library has two tags. No error is reported.
\<close>

theorem getLibraryStats_tags_failure:
  "tags_get tags_down 25 0 = Inl (JsError (ErrorResponse 500) ''500: Internal Server Error'') \<and>
   listTags tags_down (Some 25) (Some 0) = TagsError ''500: Internal Server Error'' \<and>
   top_tags (case fst (getLibraryStats library) of Stats st \<Rightarrow> st) = [(''y'', 4), (''x'', 1)] \<and>
   fst (getLibraryStats tags_down)
     = Stats \<lparr>total_items = Num 3, total_collections = 1, total_tags = 0,
               collections = [(''COLL0001'', ''Papers'')], top_tags = [],
               last_modified_item = Some (''A Book'', Some ''2025-01-15T00:00:00Z'')\<rparr>"
  by code_simp

end
